theory Spec2Isabelle
  imports Complex_Main "HOL-Library.Word" "HOL-Library.Monad_Syntax"
begin

section \<open>The voice client: session lifecycle and playback scheduling\<close>

text \<open>
  The source is the React component \<^verbatim>\<open>App\<close> (src/unnamed/part\_000). Its state is
  four \<^verbatim>\<open>useState\<close> cells (the signals the UI shows) and nine \<^verbatim>\<open>useRef\<close> cells (the
  handles of the browser objects it owns and the Timeline Cursor). Every handler of the
  component is modelled as a function from that state to the new state.

  Conventions of the embedding:
  \<^item> a browser or SDK object is a \<open>handle\<close> (a number naming it); a ref cell holding
    \<^verbatim>\<open>null\<close> is \<open>None\<close>;
  \<^item> a JavaScript number that is a time or a duration is a \<open>real\<close>: the rounding of
    IEEE doubles is not modelled. The one number that can be \<^verbatim>\<open>NaN\<close> in the source (the
    volume, on an empty bin array) has the type \<open>js_number\<close>;
  \<^item> what the platform answers (the clock reading, whether a call throws, the handle a
    constructor returns, the decoded buffer) is a parameter of the handler;
  \<^item> every call the component makes on the platform is appended to the field
    \<open>effects\<close>, oldest first, so that "logged", "scheduled" and "closed" are properties
    of the state;
  \<^item> the outbound capture callback (\<^verbatim>\<open>createPcmBlob\<close>, \<^verbatim>\<open>sendRealtimeInput\<close> of a
    chunk) only sends and touches no cell of the state; it is recorded as registered and
    not modelled further.
\<close>

subsection \<open>Data model\<close>

type_synonym handle = nat

type_synonym byte = "8 word"

text \<open>A thrown value or a rejection reason: an object whose \<^verbatim>\<open>message\<close> property may be
  absent (\<^verbatim>\<open>undefined\<close>), as for a plain \<^verbatim>\<open>Event\<close>.\<close>

datatype js_error = Thrown (message: "string option")

datatype js_number = Num real | NaN

text \<open>An \<^verbatim>\<open>AudioBuffer\<close>; the component reads only its duration (seconds).\<close>

datatype audio_buffer = AudioBuffer (duration: real)

datatype effect =
    ConsoleLog string
  | ConsoleWarn string js_error
  | ConsoleError string js_error
  | SessionClose handle
  | TracksStop handle
  | NodeDisconnect handle
  | ContextClose handle
  | CancelAnimationFrame nat
  | RequestAnimationFrame nat
  | GetByteFrequencyData handle
  | NodeConnect handle handle
  | BufferSourceStart handle real audio_buffer
  | SetOnAudioProcess handle handle
  | SendInitialText handle string

record app =
  isConnected :: bool
  error :: "string option"
  volume :: js_number
  isAiSpeaking :: bool
  inputAudioContextRef :: "handle option"
  outputAudioContextRef :: "handle option"
  inputMediaStreamRef :: "handle option"
  inputSourceRef :: "handle option"
  processorRef :: "handle option"
  analyserRef :: "handle option"
  nextStartTimeRef :: real
  aiSessionRef :: "handle option"
  animationFrameRef :: "nat option"
  effects :: "effect list"

text \<open>The state of a freshly mounted component (lines 27--41).\<close>

definition initial :: app where
  "initial = \<lparr> isConnected = False, error = None, volume = Num 0, isAiSpeaking = False,
     inputAudioContextRef = None, outputAudioContextRef = None, inputMediaStreamRef = None,
     inputSourceRef = None, processorRef = None, analyserRef = None, nextStartTimeRef = 0,
     aiSessionRef = None, animationFrameRef = None, effects = [] \<rparr>"

definition perform :: "effect list \<Rightarrow> app \<Rightarrow> app" where
  "perform es s = s\<lparr>effects := effects s @ es\<rparr>"

subsection \<open>Teardown: \<^verbatim>\<open>stopSession\<close> (lines 44--93)\<close>

text \<open>
  Step 1. \<open>closeResult\<close> is what \<^verbatim>\<open>aiSessionRef.current.close()\<close> does when it is called:
  \<open>None\<close> when it returns, \<open>Some e\<close> when it throws \<open>e\<close>. The \<^verbatim>\<open>try\<close>/\<^verbatim>\<open>catch\<close>
  around it logs a warning; the ref is cleared either way.
\<close>

definition closeGeminiSession :: "js_error option \<Rightarrow> app \<Rightarrow> app" where
  "closeGeminiSession closeResult s =
     (case aiSessionRef s of
        None \<Rightarrow> s
      | Some session \<Rightarrow>
          (case closeResult of
             None \<Rightarrow> perform [SessionClose session] s
           | Some e \<Rightarrow> perform [SessionClose session, ConsoleWarn ''Error closing session'' e] s)
          \<lparr>aiSessionRef := None\<rparr>)"

text \<open>Step 2: the microphone stream, the capture processor, the input source and the
  input audio context. None of these platform calls throws.\<close>

definition stopInputAudio :: "app \<Rightarrow> app" where
  "stopInputAudio s0 =
     (let s1 = (case inputMediaStreamRef s0 of None \<Rightarrow> s0
                | Some stream \<Rightarrow> (perform [TracksStop stream] s0)\<lparr>inputMediaStreamRef := None\<rparr>);
          s2 = (case processorRef s1 of None \<Rightarrow> s1
                | Some processor \<Rightarrow> (perform [NodeDisconnect processor] s1)\<lparr>processorRef := None\<rparr>);
          s3 = (case inputSourceRef s2 of None \<Rightarrow> s2
                | Some source \<Rightarrow> (perform [NodeDisconnect source] s2)\<lparr>inputSourceRef := None\<rparr>)
      in (case inputAudioContextRef s3 of None \<Rightarrow> s3
          | Some c \<Rightarrow> (perform [ContextClose c] s3)\<lparr>inputAudioContextRef := None\<rparr>))"

text \<open>Step 3: the output audio context.\<close>

definition stopOutputAudio :: "app \<Rightarrow> app" where
  "stopOutputAudio s =
     (case outputAudioContextRef s of None \<Rightarrow> s
      | Some c \<Rightarrow> (perform [ContextClose c] s)\<lparr>outputAudioContextRef := None\<rparr>)"

text \<open>Step 4: the animation frame. The test \<^verbatim>\<open>if (animationFrameRef.current)\<close> is a
  truthiness test on a number: it fails on \<^verbatim>\<open>null\<close> and on \<^verbatim>\<open>0\<close>.\<close>

definition stopAnimationFrame :: "app \<Rightarrow> app" where
  "stopAnimationFrame s =
     (case animationFrameRef s of None \<Rightarrow> s
      | Some frame \<Rightarrow>
          if frame = 0 then s
          else (perform [CancelAnimationFrame frame] s)\<lparr>animationFrameRef := None\<rparr>)"

definition stopSession :: "js_error option \<Rightarrow> app \<Rightarrow> app" where
  "stopSession closeResult s =
     (stopAnimationFrame (stopOutputAudio (stopInputAudio (closeGeminiSession closeResult s))))
     \<lparr>isConnected := False, isAiSpeaking := False, volume := Num 0, nextStartTimeRef := 0\<rparr>"

subsection \<open>Channel callbacks \<^verbatim>\<open>onopen\<close>, \<^verbatim>\<open>onclose\<close>, \<^verbatim>\<open>onerror\<close> (lines 151--161, 200--208)\<close>

text \<open>\<^verbatim>\<open>onopen\<close> also registers a continuation on the session promise; it runs once the
  promise has resolved with the session, and sends the initial text.\<close>

definition onopen :: "app \<Rightarrow> app" where
  "onopen s = (perform [ConsoleLog ''Gemini Live Session Opened''] s)\<lparr>isConnected := True\<rparr>"

definition onopen_then :: "handle \<Rightarrow> app \<Rightarrow> app" where
  "onopen_then session s = perform [SendInitialText session ''Initialize conversation.''] s"

definition onclose :: "js_error option \<Rightarrow> app \<Rightarrow> app" where
  "onclose closeResult s =
     stopSession closeResult (perform [ConsoleLog ''Gemini Live Session Closed''] s)"

definition onerror :: "js_error option \<Rightarrow> js_error \<Rightarrow> app \<Rightarrow> app" where
  "onerror closeResult err s =
     stopSession closeResult
       ((perform [ConsoleError ''Gemini Live Error:'' err] s)
          \<lparr>error := Some ''Connection Error. Please try again.''\<rparr>)"

subsection \<open>Inbound messages: \<^verbatim>\<open>onmessage\<close> (lines 162--199)\<close>

text \<open>The part of the SDK's \<^verbatim>\<open>LiveServerMessage\<close> that the handler reads; every property
  is optional.\<close>

datatype blob = Blob (data: "string option")

datatype part = Part (inlineData: "blob option")

datatype content = Content (parts: "part list option")

datatype server_content =
  ServerContent (modelTurn: "content option") (turnComplete: "bool option")

datatype live_server_message = LiveServerMessage (serverContent: "server_content option")

text \<open>\<^verbatim>\<open>parts?.[0]\<close>: the element at index 0, \<^verbatim>\<open>undefined\<close> on an empty array.\<close>

definition first_part :: "part list \<Rightarrow> part option" where
  "first_part ps = (case ps of [] \<Rightarrow> None | p # _ \<Rightarrow> Some p)"

text \<open>\<^verbatim>\<open>message.serverContent?.modelTurn?.parts?.[0]?.inlineData?.data\<close>\<close>

definition base64Audio :: "live_server_message \<Rightarrow> string option" where
  "base64Audio m =
     serverContent m \<bind> modelTurn \<bind> parts \<bind> first_part \<bind> inlineData \<bind> data"

text \<open>
  The module \<^verbatim>\<open>utils/audioUtils\<close> is not among the sources. The two functions of it that
  the inbound path calls are parameters of the handler: \<open>Inl e\<close> is the call throwing
  \<open>e\<close> (for \<^verbatim>\<open>decodeAudioData\<close>, also its promise rejecting with \<open>e\<close>).
\<close>

record audioUtils =
  base64ToUint8Array :: "string \<Rightarrow> js_error + byte list"
  decodeAudioData :: "byte list \<Rightarrow> handle \<Rightarrow> nat \<Rightarrow> nat \<Rightarrow> js_error + audio_buffer"

text \<open>How the promise of an \<^verbatim>\<open>async\<close> handler settles.\<close>

datatype completion = Resolved | Rejected js_error

text \<open>
  Lines 174--192, the code after \<^verbatim>\<open>await decodeAudioData(...)\<close>: \<open>outputCtx\<close> is the
  context captured before the \<^verbatim>\<open>await\<close>, \<open>now\<close> the reading of \<^verbatim>\<open>outputCtx.currentTime\<close>.
  One effect stands for creating the buffer source, connecting it to the destination
  and starting it at \<open>startTime\<close>.
\<close>

definition onmessage_decoded :: "handle \<Rightarrow> real \<Rightarrow> audio_buffer \<Rightarrow> app \<Rightarrow> app" where
  "onmessage_decoded outputCtx now audioBuffer s =
     (let startTime = max now (nextStartTimeRef s)
      in (perform [BufferSourceStart outputCtx startTime audioBuffer] s)
           \<lparr>nextStartTimeRef := startTime + duration audioBuffer\<rparr>)"

text \<open>
  The handler run without another handler in between. \<^verbatim>\<open>if (base64Audio)\<close> fails on
  \<^verbatim>\<open>undefined\<close> and on the empty string. There is no \<^verbatim>\<open>try\<close> in the handler: a throw
  of the decoding calls rejects the handler's promise, which goes back to the SDK that
  called it; nothing of the component runs on that rejection. The branch on
  \<^verbatim>\<open>turnComplete\<close> is empty.
\<close>

definition onmessage ::
  "audioUtils \<Rightarrow> real \<Rightarrow> live_server_message \<Rightarrow> app \<Rightarrow> app \<times> completion" where
  "onmessage U now m s =
     (case base64Audio m of
        None \<Rightarrow> (s, Resolved)
      | Some b64 \<Rightarrow>
          if b64 = [] then (s, Resolved)
          else
            (let s1 = s\<lparr>isAiSpeaking := True\<rparr> in
             case outputAudioContextRef s1 of
               None \<Rightarrow> (s1, Resolved)
             | Some outputCtx \<Rightarrow>
                 (case base64ToUint8Array U b64 of
                    Inl e \<Rightarrow> (s1, Rejected e)
                  | Inr audioData \<Rightarrow>
                      (case decodeAudioData U audioData outputCtx 24000 1 of
                         Inl e \<Rightarrow> (s1, Rejected e)
                       | Inr audioBuffer \<Rightarrow>
                           (onmessage_decoded outputCtx now audioBuffer s1, Resolved)))))"

text \<open>\<^verbatim>\<open>source.onended\<close> (lines 187--192); \<open>now\<close> is \<^verbatim>\<open>outputCtx.currentTime\<close> when the
  callback fires.\<close>

definition onended :: "real \<Rightarrow> app \<Rightarrow> app" where
  "onended now s =
     (if now \<ge> nextStartTimeRef s - 0.1 then s\<lparr>isAiSpeaking := False\<rparr> else s)"

subsection \<open>The volume meter: \<^verbatim>\<open>updateVolume\<close> (lines 228--243)\<close>

text \<open>
  \<open>dataArray\<close> is the \<^verbatim>\<open>Uint8Array\<close> after \<^verbatim>\<open>getByteFrequencyData\<close> has filled it. The
  loop adds the bytes up (an integer, exact in a double). On an empty array the
  division is \<^verbatim>\<open>0 / 0\<close>, which is \<^verbatim>\<open>NaN\<close>, and \<^verbatim>\<open>Math.min(NaN, 1)\<close> is \<^verbatim>\<open>NaN\<close>.
\<close>

definition volume_level :: "byte list \<Rightarrow> js_number" where
  "volume_level dataArray =
     (let sum = foldl (\<lambda>sum b. sum + unat b) 0 dataArray
      in if length dataArray = 0 then NaN
         else (let average = real sum / real (length dataArray)
               in Num (min (average / 100) 1)))"

text \<open>\<open>frame\<close> is the request ID that \<^verbatim>\<open>requestAnimationFrame\<close> returns.\<close>

definition updateVolume :: "byte list \<Rightarrow> nat \<Rightarrow> app \<Rightarrow> app" where
  "updateVolume dataArray frame s =
     (let s1 = (case analyserRef s of
                  None \<Rightarrow> s
                | Some analyser \<Rightarrow>
                    (perform [GetByteFrequencyData analyser] s)
                      \<lparr>volume := volume_level dataArray\<rparr>)
      in (perform [RequestAnimationFrame frame] s1)\<lparr>animationFrameRef := Some frame\<rparr>)"

subsection \<open>Session start: \<^verbatim>\<open>startSession\<close> (lines 95--251)\<close>

text \<open>
  What the platform answers during one start attempt. \<open>API_KEY\<close> is the module
  constant read from the build environment (\<open>None\<close> when it is undefined); each
  constructor or factory call either throws (\<open>Inl\<close>) or returns a handle;
  \<open>getUserMedia\<close> and \<open>liveConnect\<close> are how the two awaited promises settle (a
  synchronous throw of the call itself, or of \<^verbatim>\<open>new GoogleGenAI\<close>, counts as \<open>Inl\<close>);
  \<open>sessionClose\<close> is what \<^verbatim>\<open>session.close()\<close> does if cleanup calls it;
  \<open>frequencyData\<close> and \<open>requestAnimationFrame\<close> feed the first tick of the meter.
\<close>

record platform =
  API_KEY :: "string option"
  newInputAudioContext :: "js_error + handle"
  newOutputAudioContext :: "js_error + handle"
  getUserMedia :: "js_error + handle"
  createMediaStreamSource :: "js_error + handle"
  createAnalyser :: "js_error + handle"
  createScriptProcessor :: "js_error + handle"
  liveConnect :: "js_error + handle"
  sessionClose :: "js_error option"
  frequencyData :: "byte list"
  requestAnimationFrame :: nat

text \<open>The \<^verbatim>\<open>catch\<close> block (lines 246--250). \<^verbatim>\<open>err.message || "Failed to initialize."\<close>
  takes the fallback when the message is \<^verbatim>\<open>undefined\<close> or the empty string.\<close>

definition message_or_default :: "js_error \<Rightarrow> string" where
  "message_or_default err =
     (case message err of
        None \<Rightarrow> ''Failed to initialize.''
      | Some m \<Rightarrow> if m = [] then ''Failed to initialize.'' else m)"

definition initialization_error :: "js_error option \<Rightarrow> js_error \<Rightarrow> app \<Rightarrow> app" where
  "initialization_error closeResult err s =
     stopSession closeResult
       ((perform [ConsoleError ''Initialization Error:'' err] s)
          \<lparr>error := Some (message_or_default err)\<rparr>)"

text \<open>
  The \<^verbatim>\<open>try\<close> block is cut at its two \<^verbatim>\<open>await\<close>s. Each piece returns \<open>Inl (e, s)\<close>
  when it throws \<open>e\<close> in state \<open>s\<close>.

  Lines 98--108, up to the call of \<^verbatim>\<open>getUserMedia\<close>. \<^verbatim>\<open>!API_KEY\<close> holds for
  \<^verbatim>\<open>undefined\<close> and for the empty string.
\<close>

definition startSession_contexts :: "platform \<Rightarrow> app \<Rightarrow> js_error \<times> app + app" where
  "startSession_contexts P s =
     (if API_KEY P = None \<or> API_KEY P = Some []
      then Inl (Thrown (Some ''API Key is missing.''), s)
      else
        (case newInputAudioContext P of
           Inl e \<Rightarrow> Inl (e, s)
         | Inr inputCtx \<Rightarrow>
             (let s1 = s\<lparr>inputAudioContextRef := Some inputCtx\<rparr> in
              case newOutputAudioContext P of
                Inl e \<Rightarrow> Inl (e, s1)
              | Inr outputCtx \<Rightarrow> Inr (s1\<lparr>outputAudioContextRef := Some outputCtx\<rparr>))))"

text \<open>
  Lines 112--210, from the resolved \<open>stream\<close> to the call of \<^verbatim>\<open>ai.live.connect\<close>. The
  input context is read back from its ref: were it \<^verbatim>\<open>null\<close> by then, the method call
  on it would throw a \<^verbatim>\<open>TypeError\<close> (its message differs between engines and is never empty). The three
  \<^verbatim>\<open>connect\<close> calls do not throw. The piece returns the local \<^verbatim>\<open>processor\<close> with the
  state.
\<close>

definition startSession_graph ::
  "platform \<Rightarrow> handle \<Rightarrow> app \<Rightarrow> js_error \<times> app + handle \<times> app" where
  "startSession_graph P stream s0 =
     (let s1 = s0\<lparr>inputMediaStreamRef := Some stream\<rparr> in
      case inputAudioContextRef s1 of
        None \<Rightarrow> Inl (Thrown (Some ''Cannot read properties of null''), s1)
      | Some inputCtx \<Rightarrow>
          (case createMediaStreamSource P of
             Inl e \<Rightarrow> Inl (e, s1)
           | Inr source \<Rightarrow>
               (let s2 = s1\<lparr>inputSourceRef := Some source\<rparr> in
                case createAnalyser P of
                  Inl e \<Rightarrow> Inl (e, s2)
                | Inr analyser \<Rightarrow>
                    (let s3 = s2\<lparr>analyserRef := Some analyser\<rparr> in
                     case createScriptProcessor P of
                       Inl e \<Rightarrow> Inl (e, s3)
                     | Inr processor \<Rightarrow>
                         Inr (processor,
                              perform [NodeConnect source analyser,
                                       NodeConnect analyser processor,
                                       NodeConnect processor inputCtx]
                                (s3\<lparr>processorRef := Some processor\<rparr>))))))"

text \<open>Lines 214--244, after the session promise has resolved with \<open>session\<close>.\<close>

definition startSession_streaming :: "platform \<Rightarrow> handle \<Rightarrow> handle \<Rightarrow> app \<Rightarrow> app" where
  "startSession_streaming P processor session s =
     updateVolume (frequencyData P) (requestAnimationFrame P)
       (perform [SetOnAudioProcess processor session] (s\<lparr>aiSessionRef := Some session\<rparr>))"

text \<open>
  What a click on the start control runs at once: \<^verbatim>\<open>setError(null)\<close> and the \<^verbatim>\<open>try\<close>
  block up to the first \<^verbatim>\<open>await\<close>, with the \<^verbatim>\<open>catch\<close> block if that throws.
\<close>

definition startSession_begin :: "platform \<Rightarrow> app \<Rightarrow> app" where
  "startSession_begin P s =
     (case startSession_contexts P (s\<lparr>error := None\<rparr>) of
        Inl (e, t) \<Rightarrow> initialization_error (sessionClose P) e t
      | Inr s1 \<Rightarrow> s1)"

datatype start_result = Started | Failed

text \<open>
  The whole start attempt with no other handler run during its two \<^verbatim>\<open>await\<close>s, except
  that the SDK calls \<^verbatim>\<open>onopen\<close> before the session promise resolves; the continuation
  that \<^verbatim>\<open>onopen\<close> registered on the promise runs after the one of \<^verbatim>\<open>startSession\<close>.
\<close>

definition startSession :: "platform \<Rightarrow> app \<Rightarrow> app \<times> start_result" where
  "startSession P s =
     (let failed = (\<lambda>(e, t). (initialization_error (sessionClose P) e t, Failed)) in
      case startSession_contexts P (s\<lparr>error := None\<rparr>) of
        Inl x \<Rightarrow> failed x
      | Inr s1 \<Rightarrow>
          (case getUserMedia P of
             Inl e \<Rightarrow> failed (e, s1)
           | Inr stream \<Rightarrow>
               (case startSession_graph P stream s1 of
                  Inl x \<Rightarrow> failed x
                | Inr (processor, s2) \<Rightarrow>
                    (case liveConnect P of
                       Inl e \<Rightarrow> failed (e, s2)
                     | Inr session \<Rightarrow>
                         (onopen_then session
                            (startSession_streaming P processor session (onopen s2)),
                          Started)))))"

subsection \<open>The controls (lines 299--316)\<close>

text \<open>Exactly one button is rendered: the start button while \<^verbatim>\<open>isConnected\<close> is false,
  the stop button otherwise. A command of the user reaches the component only as a
  click on the button that is rendered.\<close>

datatype control = INITIALIZE | TERMINATE

definition rendered :: "app \<Rightarrow> control" where
  "rendered s = (if \<not> isConnected s then INITIALIZE else TERMINATE)"

definition onClick :: "platform \<Rightarrow> control \<Rightarrow> app \<Rightarrow> app" where
  "onClick P b s =
     (case b of
        INITIALIZE \<Rightarrow> startSession_begin P s
      | TERMINATE \<Rightarrow> stopSession (sessionClose P) s)"

datatype command = Start | Stop

definition button_for :: "command \<Rightarrow> control" where
  "button_for c = (case c of Start \<Rightarrow> INITIALIZE | Stop \<Rightarrow> TERMINATE)"

definition request :: "platform \<Rightarrow> command \<Rightarrow> app \<Rightarrow> app" where
  "request P c s = (if rendered s = button_for c then onClick P (button_for c) s else s)"

subsection \<open>Events of a running session\<close>

text \<open>The callbacks that fire while a session streams: an inbound message (handled at
  clock reading \<open>now\<close>), the end of a played segment, a tick of the meter.\<close>

datatype event =
    Message real live_server_message
  | Ended real
  | Frame "byte list" nat

fun react :: "audioUtils \<Rightarrow> event \<Rightarrow> app \<Rightarrow> app" where
  "react U (Message now m) s = fst (onmessage U now m s)"
| "react U (Ended now) s = onended now s"
| "react U (Frame dataArray frame) s = updateVolume dataArray frame s"

fun run :: "audioUtils \<Rightarrow> event list \<Rightarrow> app \<Rightarrow> app" where
  "run U [] s = s"
| "run U (ev # evs) s = run U evs (react U ev s)"

text \<open>The segments handed to the output device so far, oldest first, each as
  (start time, duration).\<close>

fun segment_of :: "effect \<Rightarrow> (real \<times> real) option" where
  "segment_of (BufferSourceStart c startTime b) = Some (startTime, duration b)"
| "segment_of _ = None"

definition scheduled :: "app \<Rightarrow> (real \<times> real) list" where
  "scheduled s = List.map_filter segment_of (effects s)"

text \<open>Two segments overlap when their intervals [start, start + duration) share a
  point.\<close>

definition overlap :: "real \<times> real \<Rightarrow> real \<times> real \<Rightarrow> bool" where
  "overlap x y = (max (fst x) (fst y) < min (fst x + snd x) (fst y + snd y))"

fun no_overlap :: "(real \<times> real) list \<Rightarrow> bool" where
  "no_overlap [] = True"
| "no_overlap (x # xs) = ((\<forall>y \<in> set xs. \<not> overlap x y) \<and> no_overlap xs)"

text \<open>Idle: not connected, no handle of a device or of the channel held and no animation
  frame pending. The ref of the analyser node is left out: the source never clears
  it, and it names a node of the input context, not a device or the channel.\<close>

definition Idle :: "app \<Rightarrow> bool" where
  "Idle s = (\<not> isConnected s \<and> aiSessionRef s = None \<and> inputMediaStreamRef s = None \<and>
     processorRef s = None \<and> inputSourceRef s = None \<and> inputAudioContextRef s = None \<and>
     outputAudioContextRef s = None \<and> animationFrameRef s = None)"

text \<open>The platform calls of one run of \<^verbatim>\<open>stopSession\<close> from state \<open>s\<close>, in the order of
  the source, when \<^verbatim>\<open>close()\<close> behaves as \<open>closeResult\<close> says.\<close>

definition cleanup_calls :: "js_error option \<Rightarrow> app \<Rightarrow> effect list" where
  "cleanup_calls closeResult s =
     (case aiSessionRef s of None \<Rightarrow> []
      | Some session \<Rightarrow>
          SessionClose session #
          (case closeResult of None \<Rightarrow> []
           | Some e \<Rightarrow> [ConsoleWarn ''Error closing session'' e])) @
     (case inputMediaStreamRef s of None \<Rightarrow> [] | Some h \<Rightarrow> [TracksStop h]) @
     (case processorRef s of None \<Rightarrow> [] | Some h \<Rightarrow> [NodeDisconnect h]) @
     (case inputSourceRef s of None \<Rightarrow> [] | Some h \<Rightarrow> [NodeDisconnect h]) @
     (case inputAudioContextRef s of None \<Rightarrow> [] | Some h \<Rightarrow> [ContextClose h]) @
     (case outputAudioContextRef s of None \<Rightarrow> [] | Some h \<Rightarrow> [ContextClose h]) @
     (case animationFrameRef s of None \<Rightarrow> []
      | Some f \<Rightarrow> if f = 0 then [] else [CancelAnimationFrame f])"

text \<open>The segments that handling the events \<open>evs\<close> from state \<open>s\<close> adds to the
  schedule. (The trace of a state also holds the segments of earlier sessions.)\<close>

definition added :: "audioUtils \<Rightarrow> event list \<Rightarrow> app \<Rightarrow> (real \<times> real) list" where
  "added U evs s = drop (length (scheduled s)) (scheduled (run U evs s))"

text \<open>Segments are in order between \<open>lo\<close> and \<open>hi\<close>: starts ascend, no two overlap, no
  duration is negative, none starts before \<open>lo\<close> and each ends by \<open>hi\<close>.\<close>

definition in_order :: "real \<Rightarrow> real \<Rightarrow> (real \<times> real) list \<Rightarrow> bool" where
  "in_order lo hi segs =
     (lo \<le> hi \<and> sorted (map fst segs) \<and> no_overlap segs \<and>
      (\<forall>x \<in> set segs. 0 \<le> snd x \<and> lo \<le> fst x \<and> fst x + snd x \<le> hi))"

text \<open>The arithmetic mean of the bins, in the words of the specification.\<close>

definition arithmetic_mean :: "byte list \<Rightarrow> real" where
  "arithmetic_mean bins = (\<Sum>b\<leftarrow>bins. real (unat b)) / real (length bins)"

text \<open>A platform call returned (it did not throw, its promise did not reject).\<close>

definition returned :: "js_error + 'a \<Rightarrow> bool" where
  "returned r = (case r of Inl e \<Rightarrow> False | Inr v \<Rightarrow> True)"

text \<open>Every step of a start attempt succeeds on platform \<open>P\<close>.\<close>

definition all_granted :: "platform \<Rightarrow> bool" where
  "all_granted P =
     (API_KEY P \<noteq> None \<and> API_KEY P \<noteq> Some [] \<and> returned (newInputAudioContext P) \<and>
      returned (newOutputAudioContext P) \<and> returned (getUserMedia P) \<and>
      returned (createMediaStreamSource P) \<and> returned (createAnalyser P) \<and>
      returned (createScriptProcessor P) \<and> returned (liveConnect P))"

text \<open>
  Where the \<^verbatim>\<open>try\<close> block of a start attempt throws, if it does: the value thrown and
  the state at that moment, which the \<^verbatim>\<open>catch\<close> block receives.
\<close>

definition thrown :: "platform \<Rightarrow> app \<Rightarrow> (js_error \<times> app) option" where
  "thrown P s =
     (case startSession_contexts P (s\<lparr>error := None\<rparr>) of
        Inl x \<Rightarrow> Some x
      | Inr s1 \<Rightarrow>
          (case getUserMedia P of
             Inl e \<Rightarrow> Some (e, s1)
           | Inr stream \<Rightarrow>
               (case startSession_graph P stream s1 of
                  Inl x \<Rightarrow> Some x
                | Inr (processor, s2) \<Rightarrow>
                    (case liveConnect P of
                       Inl e \<Rightarrow> Some (e, s2)
                     | Inr session \<Rightarrow> None))))"

text \<open>The platform calls that a start attempt from state \<open>s\<close> makes.\<close>

definition attempt_calls :: "platform \<Rightarrow> app \<Rightarrow> effect list" where
  "attempt_calls P s = drop (length (effects s)) (effects (fst (startSession P s)))"

subsection \<open>A decoder for concrete inputs\<close>

text \<open>
  Modelled from the spec: the module \<^verbatim>\<open>utils/audioUtils\<close> with \<^verbatim>\<open>base64ToUint8Array\<close> and
  \<^verbatim>\<open>decodeAudioData\<close> is missing from the sources. The specification says that an inbound
  payload is base64-encoded 16-bit PCM, and that decoding turns consecutive
  little-endian 16-bit samples into a buffer tagged with the given rate and channel
  count, failing with a DecodeError when the byte length is not a whole multiple of 2
  bytes per channel. The theorems below hold for every pair of functions; this pair
  only instantiates them.
\<close>

definition sextet :: "char \<Rightarrow> nat option" where
  "sextet c =
     (let n = (of_char c :: nat) in
      if 65 \<le> n \<and> n \<le> 90 then Some (n - 65)
      else if 97 \<le> n \<and> n \<le> 122 then Some (n - 71)
      else if 48 \<le> n \<and> n \<le> 57 then Some (n + 4)
      else if n = 43 then Some 62
      else if n = 47 then Some 63
      else None)"

fun sextets :: "string \<Rightarrow> nat list option" where
  "sextets [] = Some []"
| "sextets (c # cs) =
     (case sextet c of None \<Rightarrow> None | Some v \<Rightarrow> map_option ((#) v) (sextets cs))"

fun octets :: "nat list \<Rightarrow> byte list option" where
  "octets (a # b # c # d # rest) =
     map_option
       (\<lambda>bs. of_nat (a * 4 + b div 16) # of_nat (b mod 16 * 16 + c div 4) #
             of_nat (c mod 4 * 64 + d) # bs)
       (octets rest)"
| "octets [a, b, c] = Some [of_nat (a * 4 + b div 16), of_nat (b mod 16 * 16 + c div 4)]"
| "octets [a, b] = Some [of_nat (a * 4 + b div 16)]"
| "octets [a] = None"
| "octets [] = Some []"

definition spec_base64ToUint8Array :: "string \<Rightarrow> js_error + byte list" where
  "spec_base64ToUint8Array b64 =
     (case sextets (rev (dropWhile (\<lambda>c. c = CHR ''='') (rev b64))) \<bind> octets of
        None \<Rightarrow> Inl (Thrown (Some ''InvalidCharacterError''))
      | Some bytes \<Rightarrow> Inr bytes)"

definition spec_decodeAudioData ::
  "byte list \<Rightarrow> handle \<Rightarrow> nat \<Rightarrow> nat \<Rightarrow> js_error + audio_buffer" where
  "spec_decodeAudioData bytes c sampleRate numChannels =
     (if length bytes mod (2 * numChannels) \<noteq> 0 then Inl (Thrown (Some ''DecodeError''))
      else Inr (AudioBuffer (real (length bytes div (2 * numChannels)) / real sampleRate)))"

definition spec_utils :: audioUtils where
  "spec_utils = \<lparr> base64ToUint8Array = spec_base64ToUint8Array,
                  decodeAudioData = spec_decodeAudioData \<rparr>"

subsection \<open>Concrete inputs\<close>

text \<open>A platform on which every step of a start succeeds, and the state that a start
  from the initial state reaches on it.\<close>

definition granted :: platform where
  "granted = \<lparr> API_KEY = Some ''k'', newInputAudioContext = Inr 1,
     newOutputAudioContext = Inr 2, getUserMedia = Inr 3, createMediaStreamSource = Inr 4,
     createAnalyser = Inr 5, createScriptProcessor = Inr 6, liveConnect = Inr 7,
     sessionClose = None, frequencyData = [0, 40, 80, 255], requestAnimationFrame = 1 \<rparr>"

definition streaming :: app where
  "streaming = fst (startSession granted initial)"

text \<open>The user refuses the microphone: \<^verbatim>\<open>getUserMedia\<close> rejects.\<close>

definition refused :: platform where
  "refused = granted\<lparr>getUserMedia := Inl (Thrown (Some ''Permission denied''))\<rparr>"

text \<open>The connection is refused: the session promise rejects with a plain event, which
  has no message.\<close>

definition unreachable :: platform where
  "unreachable = granted\<lparr>liveConnect := Inl (Thrown None)\<rparr>"

text \<open>A second platform answer, for a second click on the start button: fresh handles.\<close>

definition granted_again :: platform where
  "granted_again = granted\<lparr>newInputAudioContext := Inr 11, newOutputAudioContext := Inr 12\<rparr>"

text \<open>The state between the first click and the answer of \<^verbatim>\<open>getUserMedia\<close>.\<close>

definition connecting :: app where
  "connecting = startSession_begin granted initial"

definition audio_message :: "string \<Rightarrow> live_server_message" where
  "audio_message b64 =
     LiveServerMessage (Some (ServerContent (Some (Content (Some [Part (Some (Blob (Some b64)))])))
       None))"

text \<open>Two samples of silence (four bytes), and a payload of three bytes, which is not a
  whole number of 16-bit samples.\<close>

definition two_samples :: live_server_message where
  "two_samples = audio_message ''AAAAAA==''"

definition malformed :: live_server_message where
  "malformed = audio_message ''AAAA''"

text \<open>A second session: one segment was played at clock reading 5, the session was
  stopped and a new one started. The trace still holds the old segment, and the
  Timeline Cursor is back at 0.\<close>

definition played :: app where
  "played = react spec_utils (Message 5 two_samples) streaming"

definition restarted :: app where
  "restarted = fst (startSession granted_again (stopSession None played))"

definition close_fails :: js_error where
  "close_fails = Thrown (Some ''WebSocket is already in CLOSING or CLOSED state.'')"

section \<open>Properties\<close>

subsection \<open>Teardown, field by field\<close>


lemma perform_fields [simp]:
  "isConnected (perform es s) = isConnected s"
  "error (perform es s) = error s"
  "volume (perform es s) = volume s"
  "isAiSpeaking (perform es s) = isAiSpeaking s"
  "inputAudioContextRef (perform es s) = inputAudioContextRef s"
  "outputAudioContextRef (perform es s) = outputAudioContextRef s"
  "inputMediaStreamRef (perform es s) = inputMediaStreamRef s"
  "inputSourceRef (perform es s) = inputSourceRef s"
  "processorRef (perform es s) = processorRef s"
  "analyserRef (perform es s) = analyserRef s"
  "nextStartTimeRef (perform es s) = nextStartTimeRef s"
  "aiSessionRef (perform es s) = aiSessionRef s"
  "animationFrameRef (perform es s) = animationFrameRef s"
  "effects (perform es s) = effects s @ es"
  by (simp_all add: perform_def)

lemma closeGeminiSession_fields [simp]:
  "isConnected (closeGeminiSession c s) = isConnected s"
  "error (closeGeminiSession c s) = error s"
  "volume (closeGeminiSession c s) = volume s"
  "isAiSpeaking (closeGeminiSession c s) = isAiSpeaking s"
  "inputAudioContextRef (closeGeminiSession c s) = inputAudioContextRef s"
  "outputAudioContextRef (closeGeminiSession c s) = outputAudioContextRef s"
  "inputMediaStreamRef (closeGeminiSession c s) = inputMediaStreamRef s"
  "inputSourceRef (closeGeminiSession c s) = inputSourceRef s"
  "processorRef (closeGeminiSession c s) = processorRef s"
  "analyserRef (closeGeminiSession c s) = analyserRef s"
  "nextStartTimeRef (closeGeminiSession c s) = nextStartTimeRef s"
  "aiSessionRef (closeGeminiSession c s) = None"
  "animationFrameRef (closeGeminiSession c s) = animationFrameRef s"
  by (simp_all add: closeGeminiSession_def split: option.splits)

lemma stopInputAudio_fields [simp]:
  "isConnected (stopInputAudio s) = isConnected s"
  "error (stopInputAudio s) = error s"
  "volume (stopInputAudio s) = volume s"
  "isAiSpeaking (stopInputAudio s) = isAiSpeaking s"
  "inputAudioContextRef (stopInputAudio s) = None"
  "outputAudioContextRef (stopInputAudio s) = outputAudioContextRef s"
  "inputMediaStreamRef (stopInputAudio s) = None"
  "inputSourceRef (stopInputAudio s) = None"
  "processorRef (stopInputAudio s) = None"
  "analyserRef (stopInputAudio s) = analyserRef s"
  "nextStartTimeRef (stopInputAudio s) = nextStartTimeRef s"
  "aiSessionRef (stopInputAudio s) = aiSessionRef s"
  "animationFrameRef (stopInputAudio s) = animationFrameRef s"
  by (simp_all add: stopInputAudio_def Let_def split: option.splits)

lemma stopOutputAudio_fields [simp]:
  "isConnected (stopOutputAudio s) = isConnected s"
  "error (stopOutputAudio s) = error s"
  "volume (stopOutputAudio s) = volume s"
  "isAiSpeaking (stopOutputAudio s) = isAiSpeaking s"
  "inputAudioContextRef (stopOutputAudio s) = inputAudioContextRef s"
  "outputAudioContextRef (stopOutputAudio s) = None"
  "inputMediaStreamRef (stopOutputAudio s) = inputMediaStreamRef s"
  "inputSourceRef (stopOutputAudio s) = inputSourceRef s"
  "processorRef (stopOutputAudio s) = processorRef s"
  "analyserRef (stopOutputAudio s) = analyserRef s"
  "nextStartTimeRef (stopOutputAudio s) = nextStartTimeRef s"
  "aiSessionRef (stopOutputAudio s) = aiSessionRef s"
  "animationFrameRef (stopOutputAudio s) = animationFrameRef s"
  by (simp_all add: stopOutputAudio_def split: option.splits)

lemma stopAnimationFrame_fields [simp]:
  "isConnected (stopAnimationFrame s) = isConnected s"
  "error (stopAnimationFrame s) = error s"
  "volume (stopAnimationFrame s) = volume s"
  "isAiSpeaking (stopAnimationFrame s) = isAiSpeaking s"
  "inputAudioContextRef (stopAnimationFrame s) = inputAudioContextRef s"
  "outputAudioContextRef (stopAnimationFrame s) = outputAudioContextRef s"
  "inputMediaStreamRef (stopAnimationFrame s) = inputMediaStreamRef s"
  "inputSourceRef (stopAnimationFrame s) = inputSourceRef s"
  "processorRef (stopAnimationFrame s) = processorRef s"
  "analyserRef (stopAnimationFrame s) = analyserRef s"
  "nextStartTimeRef (stopAnimationFrame s) = nextStartTimeRef s"
  "aiSessionRef (stopAnimationFrame s) = aiSessionRef s"
  "animationFrameRef (stopAnimationFrame s) = (if animationFrameRef s = Some 0 then Some 0 else None)"
  by (simp_all add: stopAnimationFrame_def split: option.splits)

lemma stopSession_fields [simp]:
  "isConnected (stopSession c s) = False"
  "error (stopSession c s) = error s"
  "volume (stopSession c s) = Num 0"
  "isAiSpeaking (stopSession c s) = False"
  "inputAudioContextRef (stopSession c s) = None"
  "outputAudioContextRef (stopSession c s) = None"
  "inputMediaStreamRef (stopSession c s) = None"
  "inputSourceRef (stopSession c s) = None"
  "processorRef (stopSession c s) = None"
  "analyserRef (stopSession c s) = analyserRef s"
  "nextStartTimeRef (stopSession c s) = 0"
  "aiSessionRef (stopSession c s) = None"
  "animationFrameRef (stopSession c s) = (if animationFrameRef s = Some 0 then Some 0 else None)"
  by (simp_all add: stopSession_def)

text \<open>What each step appends to the trace of platform calls.\<close>

lemma closeGeminiSession_effects:
  "effects (closeGeminiSession c s) = effects s @
     (case aiSessionRef s of None \<Rightarrow> [] | Some session \<Rightarrow>
        SessionClose session # (case c of None \<Rightarrow> [] | Some e \<Rightarrow> [ConsoleWarn ''Error closing session'' e]))"
  by (simp add: closeGeminiSession_def split: option.splits)

lemma stopInputAudio_effects:
  "effects (stopInputAudio s) = effects s @
     (case inputMediaStreamRef s of None \<Rightarrow> [] | Some h \<Rightarrow> [TracksStop h]) @
     (case processorRef s of None \<Rightarrow> [] | Some h \<Rightarrow> [NodeDisconnect h]) @
     (case inputSourceRef s of None \<Rightarrow> [] | Some h \<Rightarrow> [NodeDisconnect h]) @
     (case inputAudioContextRef s of None \<Rightarrow> [] | Some h \<Rightarrow> [ContextClose h])"
  by (simp add: stopInputAudio_def Let_def split: option.splits)

lemma stopOutputAudio_effects:
  "effects (stopOutputAudio s) = effects s @
     (case outputAudioContextRef s of None \<Rightarrow> [] | Some h \<Rightarrow> [ContextClose h])"
  by (simp add: stopOutputAudio_def split: option.splits)

lemma stopAnimationFrame_effects:
  "effects (stopAnimationFrame s) = effects s @
     (case animationFrameRef s of None \<Rightarrow> [] | Some f \<Rightarrow> if f = 0 then [] else [CancelAnimationFrame f])"
  by (simp add: stopAnimationFrame_def split: option.splits)

lemma stopSession_effects:
  "effects (stopSession c s) = effects s @ cleanup_calls c s"
  by (simp add: stopSession_def stopAnimationFrame_effects stopOutputAudio_effects
      stopInputAudio_effects closeGeminiSession_effects cleanup_calls_def)

subsection \<open>The concrete states\<close>

lemmas example_defs = streaming_def startSession_def granted_def initial_def startSession_contexts_def
  startSession_graph_def startSession_streaming_def onopen_def onopen_then_def updateVolume_def volume_level_def

lemma streaming_value:
  "streaming = \<lparr> isConnected = True, error = None, volume = Num (15 / 16), isAiSpeaking = False,
     inputAudioContextRef = Some 1, outputAudioContextRef = Some 2, inputMediaStreamRef = Some 3,
     inputSourceRef = Some 4, processorRef = Some 6, analyserRef = Some 5, nextStartTimeRef = 0,
     aiSessionRef = Some 7, animationFrameRef = Some 1,
     effects = [NodeConnect 4 5, NodeConnect 5 6, NodeConnect 6 1, ConsoleLog ''Gemini Live Session Opened'',
        SetOnAudioProcess 6 7, GetByteFrequencyData 5, RequestAnimationFrame 1,
        SendInitialText 7 ''Initialize conversation.''] \<rparr>"
  by (simp add: example_defs perform_def Let_def)

subsection \<open>Teardown is total\<close>

text \<open>
  Claim C4. From every state, \<^verbatim>\<open>stopSession\<close> runs all its steps whether or not closing
  the channel throws: a throw of \<^verbatim>\<open>close()\<close> is logged as a console warning and the
  error signal shown to the user keeps its value. Afterwards the connected flag and
  the AI-speaking flag are false, the volume is 0, the Timeline Cursor is 0, and the
  channel, input stream, capture processor, input source, input context, output
  context and animation frame refs are all \<^verbatim>\<open>null\<close>. The platform calls made are exactly
  \<open>cleanup_calls\<close>: every handle held is released, in the order of the source.

  The hypothesis is on the animation frame ref only: the source tests it for
  truthiness, and \<^verbatim>\<open>requestAnimationFrame\<close> never returns the request ID 0, so every
  state the component builds satisfies it.
\<close>

theorem stopSession_releases_everything:
  assumes "animationFrameRef s \<noteq> Some 0"
  shows "isConnected (stopSession closeResult s) = False \<and>
         isAiSpeaking (stopSession closeResult s) = False \<and>
         volume (stopSession closeResult s) = Num 0 \<and>
         nextStartTimeRef (stopSession closeResult s) = 0 \<and>
         aiSessionRef (stopSession closeResult s) = None \<and>
         inputMediaStreamRef (stopSession closeResult s) = None \<and>
         processorRef (stopSession closeResult s) = None \<and>
         inputSourceRef (stopSession closeResult s) = None \<and>
         inputAudioContextRef (stopSession closeResult s) = None \<and>
         outputAudioContextRef (stopSession closeResult s) = None \<and>
         animationFrameRef (stopSession closeResult s) = None \<and>
         error (stopSession closeResult s) = error s \<and>
         effects (stopSession closeResult s) = effects s @ cleanup_calls closeResult s \<and>
         (\<forall>session e. aiSessionRef s = Some session \<and> closeResult = Some e \<longrightarrow>
            ConsoleWarn ''Error closing session'' e \<in> set (effects (stopSession closeResult s)))"
  using assms by (simp add: stopSession_effects cleanup_calls_def)

theorem stopSession_releases_everything_witness:
  "animationFrameRef streaming \<noteq> Some 0 \<and>
   isConnected (stopSession (Some close_fails) streaming) = False \<and>
   isAiSpeaking (stopSession (Some close_fails) streaming) = False \<and>
   volume (stopSession (Some close_fails) streaming) = Num 0 \<and>
   nextStartTimeRef (stopSession (Some close_fails) streaming) = 0 \<and>
   aiSessionRef (stopSession (Some close_fails) streaming) = None \<and>
   inputMediaStreamRef (stopSession (Some close_fails) streaming) = None \<and>
   processorRef (stopSession (Some close_fails) streaming) = None \<and>
   inputSourceRef (stopSession (Some close_fails) streaming) = None \<and>
   inputAudioContextRef (stopSession (Some close_fails) streaming) = None \<and>
   outputAudioContextRef (stopSession (Some close_fails) streaming) = None \<and>
   animationFrameRef (stopSession (Some close_fails) streaming) = None \<and>
   error (stopSession (Some close_fails) streaming) = None \<and>
   effects (stopSession (Some close_fails) streaming) =
     effects streaming @
     [SessionClose 7, ConsoleWarn ''Error closing session'' close_fails, TracksStop 3,
      NodeDisconnect 6, NodeDisconnect 4, ContextClose 1, ContextClose 2,
      CancelAnimationFrame 1] \<and>
   ConsoleWarn ''Error closing session'' close_fails
     \<in> set (effects (stopSession (Some close_fails) streaming))"
proof -
  have frame: "animationFrameRef streaming \<noteq> Some 0"
    by (simp add: streaming_value)
  show ?thesis
    using stopSession_releases_everything [OF frame, of "Some close_fails"] frame
    by (simp add: cleanup_calls_def streaming_value)
qed

lemma scheduled_perform [simp]:
  "scheduled (perform es s) = scheduled s @ List.map_filter segment_of es"
  by (simp add: scheduled_def perform_def List.map_filter_def)

lemma scheduled_update [simp]:
  "scheduled (s\<lparr>isAiSpeaking := b\<rparr>) = scheduled s"
  "scheduled (s\<lparr>nextStartTimeRef := t\<rparr>) = scheduled s"
  "scheduled (s\<lparr>volume := v\<rparr>) = scheduled s"
  "scheduled (s\<lparr>animationFrameRef := f\<rparr>) = scheduled s"
  by (simp_all add: scheduled_def)

lemma onmessage_decoded_schedule:
  "scheduled (onmessage_decoded c now b s) =
     scheduled s @ [(max now (nextStartTimeRef s), duration b)]"
  "nextStartTimeRef (onmessage_decoded c now b s) = max now (nextStartTimeRef s) + duration b"
  by (simp_all add: onmessage_decoded_def Let_def List.map_filter_def)

lemma base64Audio_audio_message [simp]: "base64Audio (audio_message b64) = Some b64"
  by (simp add: base64Audio_def audio_message_def first_part_def)

lemma onmessage_no_audio:
  "base64Audio m = None \<or> base64Audio m = Some [] \<Longrightarrow> onmessage U now m s = (s, Resolved)"
  by (auto simp: onmessage_def)

lemma onmessage_audio:
  assumes "base64Audio m = Some b64" "b64 \<noteq> []"
  shows "onmessage U now m s =
     (case outputAudioContextRef s of
        None \<Rightarrow> (s\<lparr>isAiSpeaking := True\<rparr>, Resolved)
      | Some outputCtx \<Rightarrow>
          (case base64ToUint8Array U b64 of
             Inl e \<Rightarrow> (s\<lparr>isAiSpeaking := True\<rparr>, Rejected e)
           | Inr audioData \<Rightarrow>
               (case decodeAudioData U audioData outputCtx 24000 1 of
                  Inl e \<Rightarrow> (s\<lparr>isAiSpeaking := True\<rparr>, Rejected e)
                | Inr audioBuffer \<Rightarrow>
                    (onmessage_decoded outputCtx now audioBuffer (s\<lparr>isAiSpeaking := True\<rparr>),
                     Resolved))))"
  using assms by (simp add: onmessage_def Let_def split: option.splits sum.splits)

subsection \<open>A message that finds no output device\<close>

text \<open>
  Claim C9. When an inbound message carries audio and the output context ref is \<^verbatim>\<open>null\<close>
  at handling time, \<^verbatim>\<open>onmessage\<close> sets the AI-speaking flag to true and returns: its
  promise resolves (no error), nothing is scheduled, the Timeline Cursor keeps its
  value, and the flag is not reset. The flag is then true with nothing playing.
\<close>

theorem onmessage_without_output_context:
  assumes "base64Audio m = Some b64" and "b64 \<noteq> []" and "outputAudioContextRef s = None"
  shows "onmessage U now m s = (s\<lparr>isAiSpeaking := True\<rparr>, Resolved) \<and>
         isAiSpeaking (fst (onmessage U now m s)) = True \<and>
         effects (fst (onmessage U now m s)) = effects s \<and>
         scheduled (fst (onmessage U now m s)) = scheduled s \<and>
         nextStartTimeRef (fst (onmessage U now m s)) = nextStartTimeRef s"
  using assms by (simp add: onmessage_audio)

lemma stopped_streaming:
  "outputAudioContextRef (stopSession None streaming) = None"
  "isAiSpeaking (stopSession None streaming) = False"
  by simp_all

theorem onmessage_without_output_context_witness:
  "base64Audio two_samples = Some ''AAAAAA=='' \<and> ''AAAAAA=='' \<noteq> [] \<and>
   outputAudioContextRef (stopSession None streaming) = None \<and>
   isAiSpeaking (stopSession None streaming) = False \<and>
   onmessage spec_utils 3 two_samples (stopSession None streaming) =
     ((stopSession None streaming)\<lparr>isAiSpeaking := True\<rparr>, Resolved) \<and>
   isAiSpeaking (fst (onmessage spec_utils 3 two_samples (stopSession None streaming))) = True \<and>
   scheduled (fst (onmessage spec_utils 3 two_samples (stopSession None streaming))) =
     scheduled (stopSession None streaming)"
proof -
  have audio: "base64Audio two_samples = Some ''AAAAAA==''"
    by (simp add: two_samples_def)
  have nonempty: "''AAAAAA=='' \<noteq> []"
    by simp
  have closed: "outputAudioContextRef (stopSession None streaming) = None"
    by simp
  show ?thesis
    using onmessage_without_output_context [OF audio nonempty closed, of spec_utils 3] audio
    by simp
qed

subsection \<open>The completion callback\<close>

text \<open>
  Claim C8. When the completion callback of a segment fires at clock reading \<open>now\<close>, the
  AI-speaking flag is set to false if \<open>now\<close> is at least the Timeline Cursor minus 0.1
  seconds, and nothing in the state changes otherwise.
\<close>

theorem onended_clears_flag_when_caught_up:
  "(nextStartTimeRef s - 0.1 \<le> now \<longrightarrow> onended now s = s\<lparr>isAiSpeaking := False\<rparr>) \<and>
   (\<not> nextStartTimeRef s - 0.1 \<le> now \<longrightarrow> onended now s = s) \<and>
   (isAiSpeaking (onended now s) =
      (if nextStartTimeRef s - 0.1 \<le> now then False else isAiSpeaking s))"
  by (simp add: onended_def)

theorem onended_clears_flag_when_caught_up_witness:
  "(2::real) - 0.1 \<le> 1.95 \<and> \<not> (2::real) - 0.1 \<le> 1.5 \<and>
   onended 1.95 (initial\<lparr>isAiSpeaking := True, nextStartTimeRef := 2\<rparr>) =
     initial\<lparr>isAiSpeaking := False, nextStartTimeRef := 2\<rparr> \<and>
   onended 1.5 (initial\<lparr>isAiSpeaking := True, nextStartTimeRef := 2\<rparr>) =
     initial\<lparr>isAiSpeaking := True, nextStartTimeRef := 2\<rparr>"
  using onended_clears_flag_when_caught_up [of "initial\<lparr>isAiSpeaking := True, nextStartTimeRef := 2\<rparr>" "1.95"]
    onended_clears_flag_when_caught_up [of "initial\<lparr>isAiSpeaking := True, nextStartTimeRef := 2\<rparr>" "1.5"]
  by simp

subsection \<open>Scheduling one segment, and the two-segment scenario\<close>

text \<open>
  Claim C6. With the Timeline Cursor at 0, a segment of one second scheduled at clock
  reading 0.0 and a second one scheduled at clock reading 0.5 start at 0.0 and at 1.0,
  and the cursor ends at 2.0.
\<close>

theorem two_one_second_segments:
  assumes "nextStartTimeRef s = 0" and "duration b1 = 1" and "duration b2 = 1"
  shows "scheduled (onmessage_decoded c 0 b1 s) = scheduled s @ [(0, 1)] \<and>
         scheduled (onmessage_decoded c 0.5 b2 (onmessage_decoded c 0 b1 s)) =
           scheduled s @ [(0, 1), (1, 1)] \<and>
         nextStartTimeRef (onmessage_decoded c 0.5 b2 (onmessage_decoded c 0 b1 s)) = 2"
  using assms by (simp add: onmessage_decoded_schedule)

theorem two_one_second_segments_witness:
  "nextStartTimeRef streaming = 0 \<and> duration (AudioBuffer 1) = 1 \<and>
   scheduled (onmessage_decoded 2 0 (AudioBuffer 1) streaming) = [(0, 1)] \<and>
   scheduled (onmessage_decoded 2 0.5 (AudioBuffer 1) (onmessage_decoded 2 0 (AudioBuffer 1) streaming))
     = [(0, 1), (1, 1)] \<and>
   nextStartTimeRef (onmessage_decoded 2 0.5 (AudioBuffer 1) (onmessage_decoded 2 0 (AudioBuffer 1) streaming))
     = 2"
proof -
  have cursor: "nextStartTimeRef streaming = 0"
    by (simp add: streaming_value)
  have second: "duration (AudioBuffer 1) = 1"
    by simp
  have unscheduled: "scheduled streaming = []"
    by (simp add: streaming_value scheduled_def List.map_filter_def)
  show ?thesis
    using two_one_second_segments [OF cursor second second, of 2] cursor
    by (simp add: unscheduled)
qed

lemmas spec_utils_defs = spec_utils_def spec_base64ToUint8Array_def sextet_def spec_decodeAudioData_def

lemma decode_examples:
  "base64ToUint8Array spec_utils ''AAAAAA=='' = Inr [0, 0, 0, 0]"
  "base64ToUint8Array spec_utils ''AAAA'' = Inr [0, 0, 0]"
  "decodeAudioData spec_utils [0, 0, 0, 0] c 24000 1 = Inr (AudioBuffer (1 / 12000))"
  "decodeAudioData spec_utils [0, 0, 0] c 24000 1 = Inl (Thrown (Some ''DecodeError''))"
  by (simp_all add: spec_utils_defs)

lemma onmessage_decodes:
  assumes "base64Audio m = Some b64" and "b64 \<noteq> []" and "outputAudioContextRef s = Some c"
    and "base64ToUint8Array U b64 = Inr bytes" and "decodeAudioData U bytes c 24000 1 = Inr b"
  shows "onmessage U now m s = (onmessage_decoded c now b (s\<lparr>isAiSpeaking := True\<rparr>), Resolved)"
  using assms by (simp add: onmessage_audio)

subsection \<open>A payload that does not decode\<close>

text \<open>
  Claim C2. When decoding the payload of an inbound audio message fails (the base64
  step throws, or \<^verbatim>\<open>decodeAudioData\<close> throws or rejects), the handler's promise rejects
  and only that message is lost: the AI-speaking flag has been set, and nothing else
  of the state has changed. The connected flag, the error signal, the channel and the
  device refs and the Timeline Cursor keep their values and no platform call is made,
  so no cleanup has run. The messages that follow are handled from that state.
\<close>

theorem decode_failure_drops_one_message:
  assumes "base64Audio m = Some b64" and "b64 \<noteq> []" and "outputAudioContextRef s = Some c"
    and "base64ToUint8Array U b64 = Inl e \<or>
         (\<exists>bytes. base64ToUint8Array U b64 = Inr bytes \<and>
                  decodeAudioData U bytes c 24000 1 = Inl e)"
  shows "onmessage U now m s = (s\<lparr>isAiSpeaking := True\<rparr>, Rejected e) \<and>
         isConnected (react U (Message now m) s) = isConnected s \<and>
         error (react U (Message now m) s) = error s \<and>
         aiSessionRef (react U (Message now m) s) = aiSessionRef s \<and>
         inputMediaStreamRef (react U (Message now m) s) = inputMediaStreamRef s \<and>
         inputAudioContextRef (react U (Message now m) s) = inputAudioContextRef s \<and>
         outputAudioContextRef (react U (Message now m) s) = outputAudioContextRef s \<and>
         nextStartTimeRef (react U (Message now m) s) = nextStartTimeRef s \<and>
         effects (react U (Message now m) s) = effects s \<and>
         run U (Message now m # evs) s = run U evs (s\<lparr>isAiSpeaking := True\<rparr>)"
proof -
  have "onmessage U now m s = (s\<lparr>isAiSpeaking := True\<rparr>, Rejected e)"
    using assms by (auto simp: onmessage_audio)
  then show ?thesis
    by simp
qed

theorem decode_failure_drops_one_message_witness:
  "base64Audio malformed = Some ''AAAA'' \<and> ''AAAA'' \<noteq> [] \<and>
   outputAudioContextRef streaming = Some 2 \<and>
   base64ToUint8Array spec_utils ''AAAA'' = Inr [0, 0, 0] \<and>
   decodeAudioData spec_utils [0, 0, 0] 2 24000 1 = Inl (Thrown (Some ''DecodeError'')) \<and>
   onmessage spec_utils 0 malformed streaming =
     (streaming\<lparr>isAiSpeaking := True\<rparr>, Rejected (Thrown (Some ''DecodeError''))) \<and>
   isConnected (react spec_utils (Message 0 malformed) streaming) = True \<and>
   effects (react spec_utils (Message 0 malformed) streaming) = effects streaming \<and>
   scheduled (run spec_utils [Message 0 malformed, Message 0 two_samples] streaming) =
     [(0, 1 / 12000)]"
proof -
  have audio: "base64Audio malformed = Some ''AAAA''"
    by (simp add: malformed_def)
  have nonempty: "''AAAA'' \<noteq> []"
    by simp
  have held: "outputAudioContextRef streaming = Some 2"
    by (simp add: streaming_value)
  have connected: "isConnected streaming"
    by (simp add: streaming_value)
  have fails: "base64ToUint8Array spec_utils ''AAAA'' = Inl (Thrown (Some ''DecodeError'')) \<or>
     (\<exists>bytes. base64ToUint8Array spec_utils ''AAAA'' = Inr bytes \<and>
        decodeAudioData spec_utils bytes 2 24000 1 = Inl (Thrown (Some ''DecodeError'')))"
    by (simp add: spec_utils_defs)
  have next_one: "scheduled (run spec_utils [Message 0 two_samples] (streaming\<lparr>isAiSpeaking := True\<rparr>))
      = [(0, 1 / 12000)]"
  proof -
    have a: "base64Audio two_samples = Some ''AAAAAA==''"
      by (simp add: two_samples_def)
    have c: "outputAudioContextRef (streaming\<lparr>isAiSpeaking := True\<rparr>) = Some 2"
      by (simp add: streaming_value)
    have "onmessage spec_utils 0 two_samples (streaming\<lparr>isAiSpeaking := True\<rparr>) =
        (onmessage_decoded 2 0 (AudioBuffer (1 / 12000)) (streaming\<lparr>isAiSpeaking := True, isAiSpeaking := True\<rparr>), Resolved)"
      by (rule onmessage_decodes [OF a _ c decode_examples(1) decode_examples(3)]) simp
    moreover have "scheduled streaming = []" "nextStartTimeRef streaming = 0"
      by (simp_all add: streaming_value scheduled_def List.map_filter_def)
    ultimately show ?thesis
      by (simp add: onmessage_decoded_schedule)
  qed
  show ?thesis
    using decode_failure_drops_one_message [OF audio nonempty held fails, of 0 "[Message 0 two_samples]"]
      audio held decode_examples(2) decode_examples(4) [of 2] next_one connected
    by simp
qed

lemma foldl_sum_bytes:
  "foldl (\<lambda>sum b. sum + unat b) acc (xs :: byte list) = acc + sum_list (map unat xs)"
  by (induction xs arbitrary: acc) simp_all

lemma real_sum_bytes:
  "real (sum_list (map unat (xs :: byte list))) = (\<Sum>b\<leftarrow>xs. real (unat b))"
  by (induction xs) simp_all

lemma volume_level_mean:
  "dataArray \<noteq> [] \<Longrightarrow> volume_level dataArray = Num (min (arithmetic_mean dataArray / 100) 1)"
  by (simp add: volume_level_def arithmetic_mean_def foldl_sum_bytes real_sum_bytes)

lemma arithmetic_mean_nonneg: "0 \<le> arithmetic_mean bins"
proof -
  have "0 \<le> (\<Sum>b\<leftarrow>bins. real (unat b))"
    by (rule sum_list_nonneg) (auto simp del: of_nat_unat)
  then show ?thesis
    by (simp add: arithmetic_mean_def del: of_nat_unat)
qed

lemma arithmetic_mean_const:
  "bins \<noteq> [] \<Longrightarrow> \<forall>b \<in> set bins. b = v \<Longrightarrow> arithmetic_mean bins = real (unat v)"
proof -
  assume ne: "bins \<noteq> []" and all: "\<forall>b \<in> set bins. b = v"
  have "(\<Sum>b\<leftarrow>bins. real (unat b)) = real (length bins) * real (unat v)"
    using all by (induction bins) (simp_all add: algebra_simps)
  then show ?thesis
    using ne by (simp add: arithmetic_mean_def)
qed

subsection \<open>The volume meter\<close>

text \<open>
  Claim C7. For every non-empty array of frequency bins (bytes, 0 to 255), a tick of
  the meter on a state that holds the analyser sets the volume to the minimum of 1 and
  the arithmetic mean of the bins divided by 100. That value lies between 0 and 1; it
  is 0 when all bins are 0 and 1 when all bins are 255. The volume is a function of
  the bins alone.
\<close>

theorem updateVolume_mean_clamped:
  assumes "dataArray \<noteq> []" and "analyserRef s = Some a"
  shows "volume (updateVolume dataArray frame s) = Num (min (arithmetic_mean dataArray / 100) 1) \<and>
         0 \<le> min (arithmetic_mean dataArray / 100) 1 \<and>
         min (arithmetic_mean dataArray / 100) 1 \<le> 1 \<and>
         ((\<forall>b \<in> set dataArray. b = 0) \<longrightarrow> volume (updateVolume dataArray frame s) = Num 0) \<and>
         ((\<forall>b \<in> set dataArray. b = 255) \<longrightarrow> volume (updateVolume dataArray frame s) = Num 1)"
proof -
  have v: "volume (updateVolume dataArray frame s) = Num (min (arithmetic_mean dataArray / 100) 1)"
    using assms by (simp add: updateVolume_def volume_level_mean)
  have zero: "(\<forall>b \<in> set dataArray. b = 0) \<longrightarrow> arithmetic_mean dataArray = 0"
    using arithmetic_mean_const [OF assms(1), of 0] by simp
  have full: "(\<forall>b \<in> set dataArray. b = 255) \<longrightarrow> arithmetic_mean dataArray = 255"
    using arithmetic_mean_const [OF assms(1), of 255] by simp
  show ?thesis
    using v zero full arithmetic_mean_nonneg [of dataArray] by auto
qed

theorem updateVolume_mean_clamped_witness:
  "[0, 40, 80, 255] \<noteq> ([] :: byte list) \<and> analyserRef streaming = Some 5 \<and>
   arithmetic_mean [0, 40, 80, 255] = 375 / 4 \<and>
   volume (updateVolume [0, 40, 80, 255] 2 streaming) = Num (15 / 16) \<and>
   volume (updateVolume [0, 0, 0] 2 streaming) = Num 0 \<and>
   volume (updateVolume [255, 255, 255] 2 streaming) = Num 1 \<and>
   volume (updateVolume [200, 100] 2 streaming) = Num 1"
proof -
  have held: "analyserRef streaming = Some 5"
    by (simp add: streaming_value)
  have ne: "[0, 40, 80, 255] \<noteq> ([] :: byte list)" "[0, 0, 0] \<noteq> ([] :: byte list)"
    "[255, 255, 255] \<noteq> ([] :: byte list)" "[200, 100] \<noteq> ([] :: byte list)"
    by simp_all
  show ?thesis
    using updateVolume_mean_clamped [OF ne(1) held, of 2]
      updateVolume_mean_clamped [OF ne(2) held, of 2]
      updateVolume_mean_clamped [OF ne(3) held, of 2]
      updateVolume_mean_clamped [OF ne(4) held, of 2] held
    by (simp add: arithmetic_mean_def)
qed

subsection \<open>The schedule stays in order\<close>

text \<open>The executable test \<open>overlap\<close> says what its name says.\<close>

lemma overlap_shares_a_point:
  "overlap x y \<longleftrightarrow>
     (\<exists>t. fst x \<le> t \<and> t < fst x + snd x \<and> fst y \<le> t \<and> t < fst y + snd y)"
proof
  assume "overlap x y"
  then have "fst x \<le> max (fst x) (fst y) \<and> max (fst x) (fst y) < fst x + snd x \<and>
      fst y \<le> max (fst x) (fst y) \<and> max (fst x) (fst y) < fst y + snd y"
    by (simp add: overlap_def)
  then show "\<exists>t. fst x \<le> t \<and> t < fst x + snd x \<and> fst y \<le> t \<and> t < fst y + snd y"
    by blast
next
  assume "\<exists>t. fst x \<le> t \<and> t < fst x + snd x \<and> fst y \<le> t \<and> t < fst y + snd y"
  then show "overlap x y"
    by (auto simp: overlap_def)
qed

lemma no_overlap_append:
  "no_overlap (xs @ [y]) = (no_overlap xs \<and> (\<forall>x \<in> set xs. \<not> overlap x y))"
  by (induction xs) auto

lemma run_append: "run U (xs @ ys) s = run U ys (run U xs s)"
  by (induction xs arbitrary: s) simp_all

lemma react_schedule:
  "(scheduled (react U ev s) = scheduled s \<and>
    nextStartTimeRef (react U ev s) = nextStartTimeRef s) \<or>
   (\<exists>now m c b64 bytes b.
      ev = Message now m \<and> outputAudioContextRef s = Some c \<and> base64Audio m = Some b64 \<and>
      b64 \<noteq> [] \<and>
      base64ToUint8Array U b64 = Inr bytes \<and> decodeAudioData U bytes c 24000 1 = Inr b \<and>
      scheduled (react U ev s) = scheduled s @ [(max now (nextStartTimeRef s), duration b)] \<and>
      nextStartTimeRef (react U ev s) = max now (nextStartTimeRef s) + duration b)"
proof (cases ev)
  case (Message now m)
  show ?thesis
  proof (cases "base64Audio m = None \<or> base64Audio m = Some []")
    case True
    then show ?thesis
      using Message by (simp add: onmessage_no_audio)
  next
    case False
    then obtain b64 where a: "base64Audio m = Some b64" "b64 \<noteq> []"
      by auto
    show ?thesis
      using Message a
      by (auto simp: onmessage_audio onmessage_decoded_schedule split: option.splits sum.splits)
  qed
next
  case (Ended now)
  then show ?thesis
    by (simp add: onended_def)
next
  case (Frame dataArray frame)
  then show ?thesis
    by (simp add: updateVolume_def List.map_filter_def split: option.splits)
qed

lemma react_decoded:
  assumes "base64Audio m = Some b64" and "b64 \<noteq> []" and "outputAudioContextRef s = Some c"
    and "base64ToUint8Array U b64 = Inr bytes" and "decodeAudioData U bytes c 24000 1 = Inr b"
  shows "effects (react U (Message now m) s) =
           effects s @ [BufferSourceStart c (max now (nextStartTimeRef s)) b]"
    and "scheduled (react U (Message now m) s) =
           scheduled s @ [(max now (nextStartTimeRef s), duration b)]"
    and "nextStartTimeRef (react U (Message now m) s) = max now (nextStartTimeRef s) + duration b"
  using assms
  by (simp_all add: onmessage_audio onmessage_decoded_schedule)
     (simp add: onmessage_decoded_def Let_def)

lemma in_order_snoc:
  assumes "in_order lo hi segs" and "hi \<le> st" and "0 \<le> d"
  shows "in_order lo (st + d) (segs @ [(st, d)])"
proof -
  have each: "\<forall>x \<in> set segs. 0 \<le> snd x \<and> lo \<le> fst x \<and> fst x + snd x \<le> hi" and lo: "lo \<le> hi"
    using assms(1) by (simp_all add: in_order_def)
  then have before: "\<forall>x \<in> set segs. fst x \<le> st \<and> fst x + snd x \<le> st"
    using assms(2) by fastforce
  have "sorted (map fst (segs @ [(st, d)]))"
    using assms(1) before by (simp add: in_order_def sorted_append)
  moreover have "no_overlap (segs @ [(st, d)])"
    using assms(1) before by (fastforce simp: in_order_def no_overlap_append overlap_def)
  moreover have "\<forall>x \<in> set (segs @ [(st, d)]).
      0 \<le> snd x \<and> lo \<le> fst x \<and> fst x + snd x \<le> st + d"
    using each before lo assms(2) assms(3) by fastforce
  moreover have "lo \<le> st + d"
    using lo assms(2) assms(3) by simp
  ultimately show ?thesis
    by (simp add: in_order_def)
qed

text \<open>The invariant of a run: what it has added so far is in order between the cursor
  it started from and the cursor it has reached.\<close>

lemma run_in_order:
  assumes "\<forall>bytes c b. decodeAudioData U bytes c 24000 1 = Inr b \<longrightarrow> 0 \<le> duration b"
  shows "\<exists>new. scheduled (run U evs s) = scheduled s @ new \<and>
           in_order (nextStartTimeRef s) (nextStartTimeRef (run U evs s)) new"
proof (induction evs rule: rev_induct)
  case Nil
  show ?case
    by (simp add: in_order_def)
next
  case (snoc ev evs)
  then obtain new where sch: "scheduled (run U evs s) = scheduled s @ new"
    and ord: "in_order (nextStartTimeRef s) (nextStartTimeRef (run U evs s)) new"
    by blast
  let ?t = "run U evs s"
  have step: "run U (evs @ [ev]) s = react U ev ?t"
    by (simp add: run_append)
  from react_schedule [of U ev ?t] show ?case
  proof (elim disjE exE conjE)
    assume "scheduled (react U ev ?t) = scheduled ?t"
      and "nextStartTimeRef (react U ev ?t) = nextStartTimeRef ?t"
    then show ?thesis
      using sch ord step by auto
  next
    fix now m c b64 bytes b
    assume dec: "decodeAudioData U bytes c 24000 1 = Inr b"
      and sch': "scheduled (react U ev ?t) =
        scheduled ?t @ [(max now (nextStartTimeRef ?t), duration b)]"
      and cur': "nextStartTimeRef (react U ev ?t) = max now (nextStartTimeRef ?t) + duration b"
    have "0 \<le> duration b"
      using assms dec by blast
    then have "in_order (nextStartTimeRef s) (max now (nextStartTimeRef ?t) + duration b)
        (new @ [(max now (nextStartTimeRef ?t), duration b)])"
      using in_order_snoc [OF ord] by simp
    then show ?thesis
      using sch sch' cur' step by auto
  qed
qed

lemma cursor_react:
  assumes "\<forall>bytes c b. decodeAudioData U bytes c 24000 1 = Inr b \<longrightarrow> 0 \<le> duration b"
  shows "nextStartTimeRef s \<le> nextStartTimeRef (react U ev s)"
  using react_schedule [of U ev s] assms by fastforce

lemma cursor_run:
  assumes "\<forall>bytes c b. decodeAudioData U bytes c 24000 1 = Inr b \<longrightarrow> 0 \<le> duration b"
  shows "nextStartTimeRef s \<le> nextStartTimeRef (run U evs s)"
proof (induction evs arbitrary: s)
  case Nil
  show ?case by simp
next
  case (Cons ev evs)
  have "nextStartTimeRef s \<le> nextStartTimeRef (react U ev s)"
    by (rule cursor_react [OF assms])
  also have "\<dots> \<le> nextStartTimeRef (run U evs (react U ev s))"
    by (rule Cons.IH)
  finally show ?case by simp
qed

text \<open>
  Claim C1. Let a session handle any sequence of events (inbound messages, completion
  callbacks, meter ticks) from any state, the decoder yielding no negative duration.
  Then
  \<^item> an audio message that finds the output context and decodes to a buffer \<open>b\<close> at
    clock reading \<open>now\<close> starts exactly one source: its start time is the maximum of
    \<open>now\<close> and the Timeline Cursor, and the cursor becomes that start plus the duration
    of \<open>b\<close>;
  \<^item> nothing else is ever scheduled: any other event leaves the schedule and the
    cursor as they are;
  \<^item> the cursor never decreases along the sequence;
  \<^item> the segments that the sequence adds have ascending start times, no two of them
    overlap, none starts before the cursor the sequence began with, and each ends by
    the cursor it has reached.
\<close>

theorem playback_schedule_in_order:
  assumes "\<forall>bytes c b. decodeAudioData U bytes c 24000 1 = Inr b \<longrightarrow> 0 \<le> duration b"
  shows "(\<forall>now m t c b64 bytes b.
            base64Audio m = Some b64 \<and> b64 \<noteq> [] \<and> outputAudioContextRef t = Some c \<and>
            base64ToUint8Array U b64 = Inr bytes \<and> decodeAudioData U bytes c 24000 1 = Inr b \<longrightarrow>
            effects (react U (Message now m) t) =
              effects t @ [BufferSourceStart c (max now (nextStartTimeRef t)) b] \<and>
            scheduled (react U (Message now m) t) =
              scheduled t @ [(max now (nextStartTimeRef t), duration b)] \<and>
            nextStartTimeRef (react U (Message now m) t) =
              max now (nextStartTimeRef t) + duration b) \<and>
         (\<forall>ev t.
            (scheduled (react U ev t) = scheduled t \<and>
             nextStartTimeRef (react U ev t) = nextStartTimeRef t) \<or>
            (\<exists>now m c b64 bytes b.
               ev = Message now m \<and> outputAudioContextRef t = Some c \<and>
               base64Audio m = Some b64 \<and> b64 \<noteq> [] \<and>
               base64ToUint8Array U b64 = Inr bytes \<and>
               decodeAudioData U bytes c 24000 1 = Inr b)) \<and>
         (\<forall>before after. evs = before @ after \<longrightarrow>
            nextStartTimeRef (run U before s) \<le> nextStartTimeRef (run U evs s)) \<and>
         scheduled (run U evs s) = scheduled s @ added U evs s \<and>
         sorted (map fst (added U evs s)) \<and>
         no_overlap (added U evs s) \<and>
         (\<forall>x \<in> set (added U evs s).
            nextStartTimeRef s \<le> fst x \<and> fst x + snd x \<le> nextStartTimeRef (run U evs s))"
proof -
  obtain new where new: "scheduled (run U evs s) = scheduled s @ new"
    and ord: "in_order (nextStartTimeRef s) (nextStartTimeRef (run U evs s)) new"
    using run_in_order [OF assms] by blast
  have added: "added U evs s = new"
    by (simp add: added_def new)
  have only: "\<forall>ev t.
      (scheduled (react U ev t) = scheduled t \<and>
       nextStartTimeRef (react U ev t) = nextStartTimeRef t) \<or>
      (\<exists>now m c b64 bytes b.
         ev = Message now m \<and> outputAudioContextRef t = Some c \<and>
         base64Audio m = Some b64 \<and> b64 \<noteq> [] \<and>
         base64ToUint8Array U b64 = Inr bytes \<and>
         decodeAudioData U bytes c 24000 1 = Inr b)"
    using react_schedule [of U] by blast
  have mono: "\<forall>before after. evs = before @ after \<longrightarrow>
      nextStartTimeRef (run U before s) \<le> nextStartTimeRef (run U evs s)"
    using cursor_run [OF assms] by (simp add: run_append)
  have each: "\<forall>now m t c b64 bytes b.
      base64Audio m = Some b64 \<and> b64 \<noteq> [] \<and> outputAudioContextRef t = Some c \<and>
      base64ToUint8Array U b64 = Inr bytes \<and> decodeAudioData U bytes c 24000 1 = Inr b \<longrightarrow>
      effects (react U (Message now m) t) =
        effects t @ [BufferSourceStart c (max now (nextStartTimeRef t)) b] \<and>
      scheduled (react U (Message now m) t) =
        scheduled t @ [(max now (nextStartTimeRef t), duration b)] \<and>
      nextStartTimeRef (react U (Message now m) t) =
        max now (nextStartTimeRef t) + duration b"
    by (intro allI impI conjI; elim conjE; rule react_decoded; assumption)
  have whole: "scheduled (run U evs s) = scheduled s @ added U evs s"
    and ascending: "sorted (map fst (added U evs s))"
    and apart: "no_overlap (added U evs s)"
    and within: "\<forall>x \<in> set (added U evs s).
      nextStartTimeRef s \<le> fst x \<and> fst x + snd x \<le> nextStartTimeRef (run U evs s)"
    using new ord by (simp_all add: added in_order_def)
  show ?thesis
    by (intro conjI) (rule each only mono whole ascending apart within)+
qed

lemma spec_durations:
  "\<forall>bytes c b. decodeAudioData spec_utils bytes c 24000 1 = Inr b \<longrightarrow> 0 \<le> duration b"
  by (auto simp: spec_utils_def spec_decodeAudioData_def)

lemma streaming_queue: "scheduled streaming = []"
  by (simp add: streaming_value scheduled_def List.map_filter_def)

lemma onmessage_decoded_fields [simp]:
  "isConnected (onmessage_decoded c now b s) = isConnected s"
  "error (onmessage_decoded c now b s) = error s"
  "isAiSpeaking (onmessage_decoded c now b s) = isAiSpeaking s"
  "outputAudioContextRef (onmessage_decoded c now b s) = outputAudioContextRef s"
  by (simp_all add: onmessage_decoded_def Let_def)

lemma onended_fields [simp]:
  "isConnected (onended now s) = isConnected s"
  "error (onended now s) = error s"
  "outputAudioContextRef (onended now s) = outputAudioContextRef s"
  "nextStartTimeRef (onended now s) = nextStartTimeRef s"
  "scheduled (onended now s) = scheduled s"
  by (simp_all add: onended_def)

lemma react_two_samples:
  assumes "outputAudioContextRef s = Some c"
  shows "scheduled (react spec_utils (Message now two_samples) s) =
           scheduled s @ [(max now (nextStartTimeRef s), 1 / 12000)]"
    and "nextStartTimeRef (react spec_utils (Message now two_samples) s) =
           max now (nextStartTimeRef s) + 1 / 12000"
    and "outputAudioContextRef (react spec_utils (Message now two_samples) s) = Some c"
proof -
  have a: "base64Audio two_samples = Some ''AAAAAA==''"
    by (simp add: two_samples_def)
  have ne: "''AAAAAA=='' \<noteq> []"
    by simp
  note d = react_decoded [OF a ne assms decode_examples(1) decode_examples(3)]
  show "scheduled (react spec_utils (Message now two_samples) s) =
           scheduled s @ [(max now (nextStartTimeRef s), 1 / 12000)]"
    using d(2) [of now] by simp
  show "nextStartTimeRef (react spec_utils (Message now two_samples) s) =
           max now (nextStartTimeRef s) + 1 / 12000"
    using d(3) [of now] by simp
  have "onmessage spec_utils now two_samples s =
      (onmessage_decoded c now (AudioBuffer (1 / 12000)) (s\<lparr>isAiSpeaking := True\<rparr>), Resolved)"
    by (rule onmessage_decodes [OF a ne assms decode_examples(1) decode_examples(3)])
  then show "outputAudioContextRef (react spec_utils (Message now two_samples) s) = Some c"
    using assms by simp
qed

text \<open>The concrete runs: a first session in which the clock is once behind the cursor,
  and a session started after an earlier one.\<close>

lemma scheduled_stopSession [simp]: "scheduled (stopSession c s) = scheduled s"
  by (simp add: scheduled_def stopSession_effects cleanup_calls_def List.map_filter_def
      split: option.splits)

lemma startSession_granted_again:
  "outputAudioContextRef (fst (startSession granted_again s)) = Some 12"
  "nextStartTimeRef (fst (startSession granted_again s)) = nextStartTimeRef s"
  "scheduled (fst (startSession granted_again s)) = scheduled s"
  by (simp_all add: startSession_def granted_again_def granted_def startSession_contexts_def
      startSession_graph_def startSession_streaming_def onopen_def onopen_then_def
      updateVolume_def Let_def perform_def scheduled_def List.map_filter_def)

lemma streaming_ready:
  "outputAudioContextRef streaming = Some 2" "nextStartTimeRef streaming = 0"
  by (simp_all add: streaming_value)

lemma restarted_ready:
  "outputAudioContextRef restarted = Some 12"
  "nextStartTimeRef restarted = 0"
  "scheduled restarted = [(5, 1 / 12000)]"
  by (simp_all add: restarted_def played_def startSession_granted_again
      react_two_samples [OF streaming_ready(1)] streaming_ready(2) streaming_queue
      del: react.simps)

lemma example_run:
  "scheduled (run spec_utils
      [Message 0 two_samples, Message (1 / 24000) two_samples, Ended (1 / 20),
       Message (1 / 2) two_samples] streaming) =
     [(0, 1 / 12000), (1 / 12000, 1 / 12000), (1 / 2, 1 / 12000)]"
  "nextStartTimeRef (run spec_utils
      [Message 0 two_samples, Message (1 / 24000) two_samples, Ended (1 / 20),
       Message (1 / 2) two_samples] streaming) = 6001 / 12000"
  "nextStartTimeRef (run spec_utils
      [Message 0 two_samples, Message (1 / 24000) two_samples] streaming) = 1 / 6000"
proof -
  let ?s1 = "react spec_utils (Message 0 two_samples) streaming"
  note r1 = react_two_samples [OF streaming_ready(1), of 0]
  let ?s2 = "react spec_utils (Message (1 / 24000) two_samples) ?s1"
  note r2 = react_two_samples [OF r1(3), of "1 / 24000"]
  let ?s3 = "onended (1 / 20) ?s2"
  have c3: "outputAudioContextRef ?s3 = Some 2"
    using r2(3) by (simp del: react.simps(1))
  note r4 = react_two_samples [OF c3, of "1 / 2"]
  have cur1: "nextStartTimeRef ?s1 = 1 / 12000"
    using r1(2) by (simp add: streaming_ready(2) del: react.simps(1))
  have cur2: "nextStartTimeRef ?s2 = 1 / 6000"
    using r2(2) by (simp add: cur1 del: react.simps(1))
  have sch2: "scheduled ?s2 = [(0, 1 / 12000), (1 / 12000, 1 / 12000)]"
    using r1(1) r2(1) by (simp add: streaming_ready(2) streaming_queue cur1 del: react.simps(1))
  show "scheduled (run spec_utils
      [Message 0 two_samples, Message (1 / 24000) two_samples, Ended (1 / 20),
       Message (1 / 2) two_samples] streaming) =
     [(0, 1 / 12000), (1 / 12000, 1 / 12000), (1 / 2, 1 / 12000)]"
    using r4(1) by (simp add: sch2 cur2 del: react.simps(1))
  show "nextStartTimeRef (run spec_utils
      [Message 0 two_samples, Message (1 / 24000) two_samples, Ended (1 / 20),
       Message (1 / 2) two_samples] streaming) = 6001 / 12000"
    using r4(2) by (simp add: cur2 del: react.simps(1))
  show "nextStartTimeRef (run spec_utils
      [Message 0 two_samples, Message (1 / 24000) two_samples] streaming) = 1 / 6000"
    using cur2 by (simp del: react.simps(1))
qed

lemma example_rerun:
  "scheduled (run spec_utils [Message 0 two_samples] restarted) =
     [(5, 1 / 12000), (0, 1 / 12000)]"
  "nextStartTimeRef (run spec_utils [Message 0 two_samples] restarted) = 1 / 12000"
  using react_two_samples [OF restarted_ready(1), of 0]
  by (simp_all add: restarted_ready del: react.simps(1))

theorem playback_schedule_in_order_witness:
  "added spec_utils
      [Message 0 two_samples, Message (1 / 24000) two_samples, Ended (1 / 20),
       Message (1 / 2) two_samples] streaming =
     [(0, 1 / 12000), (1 / 12000, 1 / 12000), (1 / 2, 1 / 12000)] \<and>
   sorted (map fst (added spec_utils
      [Message 0 two_samples, Message (1 / 24000) two_samples, Ended (1 / 20),
       Message (1 / 2) two_samples] streaming)) \<and>
   no_overlap (added spec_utils
      [Message 0 two_samples, Message (1 / 24000) two_samples, Ended (1 / 20),
       Message (1 / 2) two_samples] streaming) \<and>
   nextStartTimeRef (run spec_utils
      [Message 0 two_samples, Message (1 / 24000) two_samples] streaming) = 1 / 6000 \<and>
   nextStartTimeRef (run spec_utils
      [Message 0 two_samples, Message (1 / 24000) two_samples, Ended (1 / 20),
       Message (1 / 2) two_samples] streaming) = 6001 / 12000 \<and>
   scheduled restarted = [(5, 1 / 12000)] \<and>
   nextStartTimeRef restarted = 0 \<and>
   scheduled (run spec_utils [Message 0 two_samples] restarted) =
     [(5, 1 / 12000), (0, 1 / 12000)] \<and>
   added spec_utils [Message 0 two_samples] restarted = [(0, 1 / 12000)] \<and>
   sorted (map fst (added spec_utils [Message 0 two_samples] restarted)) \<and>
   no_overlap (added spec_utils [Message 0 two_samples] restarted)"
proof -
  note first = playback_schedule_in_order [OF spec_durations,
      of "[Message 0 two_samples, Message (1 / 24000) two_samples, Ended (1 / 20),
          Message (1 / 2) two_samples]" streaming]
  note second = playback_schedule_in_order [OF spec_durations,
      of "[Message 0 two_samples]" restarted]
  from first have whole1: "scheduled (run spec_utils
      [Message 0 two_samples, Message (1 / 24000) two_samples, Ended (1 / 20),
       Message (1 / 2) two_samples] streaming) =
     scheduled streaming @ added spec_utils
      [Message 0 two_samples, Message (1 / 24000) two_samples, Ended (1 / 20),
       Message (1 / 2) two_samples] streaming"
    and asc1: "sorted (map fst (added spec_utils
      [Message 0 two_samples, Message (1 / 24000) two_samples, Ended (1 / 20),
       Message (1 / 2) two_samples] streaming))"
    and apart1: "no_overlap (added spec_utils
      [Message 0 two_samples, Message (1 / 24000) two_samples, Ended (1 / 20),
       Message (1 / 2) two_samples] streaming)"
    by blast+
  from second have whole2: "scheduled (run spec_utils [Message 0 two_samples] restarted) =
      scheduled restarted @ added spec_utils [Message 0 two_samples] restarted"
    and asc2: "sorted (map fst (added spec_utils [Message 0 two_samples] restarted))"
    and apart2: "no_overlap (added spec_utils [Message 0 two_samples] restarted)"
    by blast+
  have a1: "added spec_utils
      [Message 0 two_samples, Message (1 / 24000) two_samples, Ended (1 / 20),
       Message (1 / 2) two_samples] streaming =
     [(0, 1 / 12000), (1 / 12000, 1 / 12000), (1 / 2, 1 / 12000)]"
    using whole1 by (simp only: example_run(1) streaming_queue append_Nil)
  have a2: "added spec_utils [Message 0 two_samples] restarted = [(0, 1 / 12000)]"
    using whole2 by (simp only: example_rerun(1) restarted_ready(3)) simp
  show ?thesis
    by (intro conjI)
       (rule a1 asc1 apart1 example_run(3) example_run(2) restarted_ready(3) restarted_ready(2)
          example_rerun(1) a2 asc2 apart2)+
qed

subsection \<open>A start attempt that fails\<close>

lemma message_or_default_nonempty: "message_or_default err \<noteq> []"
  by (simp add: message_or_default_def split: option.splits)

lemma initialization_error_fields [simp]:
  "isConnected (initialization_error c err s) = False"
  "error (initialization_error c err s) = Some (message_or_default err)"
  "volume (initialization_error c err s) = Num 0"
  "isAiSpeaking (initialization_error c err s) = False"
  "inputAudioContextRef (initialization_error c err s) = None"
  "outputAudioContextRef (initialization_error c err s) = None"
  "inputMediaStreamRef (initialization_error c err s) = None"
  "inputSourceRef (initialization_error c err s) = None"
  "processorRef (initialization_error c err s) = None"
  "nextStartTimeRef (initialization_error c err s) = 0"
  "aiSessionRef (initialization_error c err s) = None"
  "animationFrameRef (initialization_error c err s) =
     (if animationFrameRef s = Some 0 then Some 0 else None)"
  by (simp_all add: initialization_error_def)

lemma startSession_contexts_Inr:
  "startSession_contexts P s = Inr s1 \<Longrightarrow>
     inputAudioContextRef s1 \<noteq> None \<and> animationFrameRef s1 = animationFrameRef s \<and>
     API_KEY P \<noteq> None \<and> API_KEY P \<noteq> Some [] \<and>
     returned (newInputAudioContext P) \<and> returned (newOutputAudioContext P)"
  by (auto simp: startSession_contexts_def returned_def Let_def split: if_splits sum.splits)

lemma startSession_contexts_Inl:
  "startSession_contexts P s = Inl (e, t) \<Longrightarrow>
     animationFrameRef t = animationFrameRef s \<and>
     \<not> (API_KEY P \<noteq> None \<and> API_KEY P \<noteq> Some [] \<and>
        returned (newInputAudioContext P) \<and> returned (newOutputAudioContext P))"
  by (auto simp: startSession_contexts_def returned_def Let_def split: if_splits sum.splits)

lemma startSession_graph_Inr:
  "startSession_graph P stream s = Inr (processor, s2) \<Longrightarrow>
     returned (createMediaStreamSource P) \<and> returned (createAnalyser P) \<and>
     returned (createScriptProcessor P)"
  by (auto simp: startSession_graph_def returned_def Let_def split: option.splits sum.splits)

lemma startSession_graph_Inl:
  "startSession_graph P stream s = Inl (e, t) \<Longrightarrow> inputAudioContextRef s \<noteq> None \<Longrightarrow>
     animationFrameRef t = animationFrameRef s \<and>
     \<not> (returned (createMediaStreamSource P) \<and> returned (createAnalyser P) \<and>
        returned (createScriptProcessor P))"
  by (auto simp: startSession_graph_def returned_def Let_def split: option.splits sum.splits)

text \<open>A start attempt either runs through, or ends in the \<^verbatim>\<open>catch\<close> block.\<close>

lemma startSession_outcome:
  "(all_granted P \<and> snd (startSession P s) = Started) \<or>
   (\<not> all_granted P \<and> snd (startSession P s) = Failed \<and>
    (\<exists>e t. animationFrameRef t = animationFrameRef s \<and>
       fst (startSession P s) = initialization_error (sessionClose P) e t))"
proof (cases "startSession_contexts P (s\<lparr>error := None\<rparr>)")
  case (Inl x)
  obtain e t where x: "x = (e, t)"
    by (cases x)
  show ?thesis
    using Inl x startSession_contexts_Inl [of P "s\<lparr>error := None\<rparr>" e t]
    by (auto simp: startSession_def all_granted_def)
next
  case ctx: (Inr s1)
  note c = startSession_contexts_Inr [OF ctx]
  show ?thesis
  proof (cases "getUserMedia P")
    case (Inl e)
    then show ?thesis
      using ctx c by (auto simp: startSession_def all_granted_def returned_def)
  next
    case media: (Inr stream)
    show ?thesis
    proof (cases "startSession_graph P stream s1")
      case (Inl x)
      obtain e t where x: "x = (e, t)"
        by (cases x)
      show ?thesis
        using ctx media Inl x c startSession_graph_Inl [of P stream s1 e t]
        by (auto simp: startSession_def all_granted_def)
    next
      case graph: (Inr y)
      obtain processor s2 where y: "y = (processor, s2)"
        by (cases y)
      have s2: "animationFrameRef s2 = animationFrameRef s1"
        using graph y
        by (auto simp: startSession_graph_def Let_def split: option.splits sum.splits)
      show ?thesis
      proof (cases "liveConnect P")
        case (Inl e)
        then show ?thesis
          using ctx media graph y c s2
          by (auto simp: startSession_def all_granted_def returned_def)
      next
        case (Inr session)
        then show ?thesis
          using ctx media graph y c startSession_graph_Inr [of P stream s1 processor s2]
          by (auto simp: startSession_def all_granted_def returned_def)
      qed
    qed
  qed
qed

lemma cleanup_calls_update [simp]:
  "cleanup_calls c (perform es s) = cleanup_calls c s"
  "cleanup_calls c (s\<lparr>error := e\<rparr>) = cleanup_calls c s"
  by (simp_all add: cleanup_calls_def)

lemma initialization_error_effects:
  "effects (initialization_error c err s) =
     effects s @ ConsoleError ''Initialization Error:'' err # cleanup_calls c s"
  by (simp add: initialization_error_def stopSession_effects)

lemma startSession_thrown:
  "thrown P s = Some (e, t) \<Longrightarrow>
     startSession P s = (initialization_error (sessionClose P) e t, Failed)"
  by (auto simp: thrown_def startSession_def Let_def split: sum.splits prod.splits)

lemma thrown_None: "thrown P s = None \<Longrightarrow> snd (startSession P s) = Started"
  by (auto simp: thrown_def startSession_def Let_def split: sum.splits prod.splits)

lemma not_granted_thrown:
  assumes "\<not> all_granted P"
  shows "\<exists>e t. thrown P s = Some (e, t)"
proof (cases "thrown P s")
  case None
  then have "snd (startSession P s) = Started"
    by (rule thrown_None)
  then show ?thesis
    using startSession_outcome [of P s] assms by simp
next
  case (Some x)
  then show ?thesis
    by (cases x) simp
qed

text \<open>At the throw, the refs hold every handle that the attempt has acquired, the
  channel ref is the one the attempt began with, and the trace has only grown.\<close>

lemma thrown_state:
  assumes "thrown P s = Some (e, t)"
  shows "\<exists>calls. effects t = effects s @ calls"
    and "aiSessionRef t = aiSessionRef s"
    and "API_KEY P \<noteq> None \<and> API_KEY P \<noteq> Some [] \<and> newInputAudioContext P = Inr ic
         \<Longrightarrow> inputAudioContextRef t = Some ic"
    and "API_KEY P \<noteq> None \<and> API_KEY P \<noteq> Some [] \<and> newInputAudioContext P = Inr ic \<and>
         newOutputAudioContext P = Inr oc
         \<Longrightarrow> outputAudioContextRef t = Some oc"
    and "API_KEY P \<noteq> None \<and> API_KEY P \<noteq> Some [] \<and> newInputAudioContext P = Inr ic \<and>
         newOutputAudioContext P = Inr oc \<and> getUserMedia P = Inr stream
         \<Longrightarrow> inputMediaStreamRef t = Some stream"
    and "API_KEY P \<noteq> None \<and> API_KEY P \<noteq> Some [] \<and> newInputAudioContext P = Inr ic \<and>
         newOutputAudioContext P = Inr oc \<and> getUserMedia P = Inr stream \<and>
         createMediaStreamSource P = Inr source
         \<Longrightarrow> inputSourceRef t = Some source"
    and "API_KEY P \<noteq> None \<and> API_KEY P \<noteq> Some [] \<and> newInputAudioContext P = Inr ic \<and>
         newOutputAudioContext P = Inr oc \<and> getUserMedia P = Inr stream \<and>
         createMediaStreamSource P = Inr source \<and> createAnalyser P = Inr analyser \<and>
         createScriptProcessor P = Inr processor
         \<Longrightarrow> processorRef t = Some processor"
    and "animationFrameRef t = animationFrameRef s"
  using assms
  by (auto simp: thrown_def startSession_contexts_def startSession_graph_def Let_def
      split: sum.splits prod.splits option.splits if_splits)

lemma released:
  "inputAudioContextRef t = Some h \<Longrightarrow> ContextClose h \<in> set (cleanup_calls c t)"
  "outputAudioContextRef t = Some h \<Longrightarrow> ContextClose h \<in> set (cleanup_calls c t)"
  "inputMediaStreamRef t = Some h \<Longrightarrow> TracksStop h \<in> set (cleanup_calls c t)"
  "inputSourceRef t = Some h \<Longrightarrow> NodeDisconnect h \<in> set (cleanup_calls c t)"
  "processorRef t = Some h \<Longrightarrow> NodeDisconnect h \<in> set (cleanup_calls c t)"
  "aiSessionRef t = Some h \<Longrightarrow> SessionClose h \<in> set (cleanup_calls c t)"
  by (simp_all add: cleanup_calls_def)

text \<open>
  Claim C5. If any step of a start attempt fails (the API key is missing, a
  constructor throws, \<^verbatim>\<open>getUserMedia\<close> rejects because the device is unavailable or
  permission is denied, a node cannot be created, or the connection is refused), the
  attempt ends in the \<^verbatim>\<open>catch\<close> block, which logs the error, sets the error signal and
  runs \<^verbatim>\<open>stopSession\<close>:
  \<^item> the connected flag is false, the channel ref and every device ref (stream,
    processor, source, input and output context) are \<^verbatim>\<open>null\<close>, and the error signal
    holds a non-empty message, the one of the value thrown or the fallback; with a
    truthy animation frame ID, as the platform always returns, the final state is
    Idle;
  \<^item> the platform calls are those made up to the throw, the console error, and the
    cleanup calls of the state at the throw, in the order of \<^verbatim>\<open>stopSession\<close>;
  \<^item> so every handle that the attempt acquired is released: both audio contexts are
    closed, the tracks of the stream are stopped, the source and the processor are
    disconnected; a channel held when the attempt began is closed.

  The refs at the throw are what cleanup sees. A context that was in a ref before the
  attempt and that the attempt overwrote is not among them (the case of claim C3).
\<close>

theorem failed_start_ends_idle_with_message:
  assumes "\<not> all_granted P"
  shows "snd (startSession P s) = Failed \<and>
         isConnected (fst (startSession P s)) = False \<and>
         aiSessionRef (fst (startSession P s)) = None \<and>
         inputMediaStreamRef (fst (startSession P s)) = None \<and>
         processorRef (fst (startSession P s)) = None \<and>
         inputSourceRef (fst (startSession P s)) = None \<and>
         inputAudioContextRef (fst (startSession P s)) = None \<and>
         outputAudioContextRef (fst (startSession P s)) = None \<and>
         (\<exists>m. error (fst (startSession P s)) = Some m \<and> m \<noteq> []) \<and>
         (animationFrameRef s \<noteq> Some 0 \<longrightarrow> Idle (fst (startSession P s))) \<and>
         (\<exists>e t. thrown P s = Some (e, t) \<and>
            error (fst (startSession P s)) = Some (message_or_default e) \<and>
            effects (fst (startSession P s)) =
              effects t @ ConsoleError ''Initialization Error:'' e #
                cleanup_calls (sessionClose P) t) \<and>
         effects (fst (startSession P s)) = effects s @ attempt_calls P s \<and>
         (\<forall>session. aiSessionRef s = Some session \<longrightarrow>
            SessionClose session \<in> set (attempt_calls P s)) \<and>
         (\<forall>ic. API_KEY P \<noteq> None \<and> API_KEY P \<noteq> Some [] \<and> newInputAudioContext P = Inr ic \<longrightarrow>
            ContextClose ic \<in> set (attempt_calls P s)) \<and>
         (\<forall>ic oc. API_KEY P \<noteq> None \<and> API_KEY P \<noteq> Some [] \<and> newInputAudioContext P = Inr ic \<and>
            newOutputAudioContext P = Inr oc \<longrightarrow>
            ContextClose oc \<in> set (attempt_calls P s)) \<and>
         (\<forall>ic oc stream. API_KEY P \<noteq> None \<and> API_KEY P \<noteq> Some [] \<and>
            newInputAudioContext P = Inr ic \<and> newOutputAudioContext P = Inr oc \<and>
            getUserMedia P = Inr stream \<longrightarrow>
            TracksStop stream \<in> set (attempt_calls P s)) \<and>
         (\<forall>ic oc stream source. API_KEY P \<noteq> None \<and> API_KEY P \<noteq> Some [] \<and>
            newInputAudioContext P = Inr ic \<and> newOutputAudioContext P = Inr oc \<and>
            getUserMedia P = Inr stream \<and> createMediaStreamSource P = Inr source \<longrightarrow>
            NodeDisconnect source \<in> set (attempt_calls P s)) \<and>
         (\<forall>ic oc stream source analyser processor. API_KEY P \<noteq> None \<and> API_KEY P \<noteq> Some [] \<and>
            newInputAudioContext P = Inr ic \<and> newOutputAudioContext P = Inr oc \<and>
            getUserMedia P = Inr stream \<and> createMediaStreamSource P = Inr source \<and>
            createAnalyser P = Inr analyser \<and> createScriptProcessor P = Inr processor \<longrightarrow>
            NodeDisconnect processor \<in> set (attempt_calls P s))"
proof -
  obtain e t where th: "thrown P s = Some (e, t)"
    using not_granted_thrown [OF assms] by blast
  have run: "startSession P s = (initialization_error (sessionClose P) e t, Failed)"
    by (rule startSession_thrown [OF th])
  obtain calls where calls: "effects t = effects s @ calls"
    using thrown_state(1) [OF th] by blast
  have frame: "animationFrameRef t = animationFrameRef s"
    by (rule thrown_state(8) [OF th])
  have trace: "effects (fst (startSession P s)) =
      effects t @ ConsoleError ''Initialization Error:'' e # cleanup_calls (sessionClose P) t"
    by (simp add: run initialization_error_effects)
  have attempt: "attempt_calls P s =
      calls @ ConsoleError ''Initialization Error:'' e # cleanup_calls (sessionClose P) t"
    by (simp add: attempt_calls_def trace calls)
  have state: "snd (startSession P s) = Failed"
    "isConnected (fst (startSession P s)) = False"
    "aiSessionRef (fst (startSession P s)) = None"
    "inputMediaStreamRef (fst (startSession P s)) = None"
    "processorRef (fst (startSession P s)) = None"
    "inputSourceRef (fst (startSession P s)) = None"
    "inputAudioContextRef (fst (startSession P s)) = None"
    "outputAudioContextRef (fst (startSession P s)) = None"
    "\<exists>m. error (fst (startSession P s)) = Some m \<and> m \<noteq> []"
    "animationFrameRef s \<noteq> Some 0 \<longrightarrow> Idle (fst (startSession P s))"
    by (simp_all add: run frame message_or_default_nonempty Idle_def)
  have point: "\<exists>e t. thrown P s = Some (e, t) \<and>
      error (fst (startSession P s)) = Some (message_or_default e) \<and>
      effects (fst (startSession P s)) =
        effects t @ ConsoleError ''Initialization Error:'' e # cleanup_calls (sessionClose P) t"
    using th trace by (auto simp: run)
  have grown: "effects (fst (startSession P s)) = effects s @ attempt_calls P s"
    by (simp add: trace attempt calls)
  have r0: "\<forall>session. aiSessionRef s = Some session \<longrightarrow>
      SessionClose session \<in> set (attempt_calls P s)"
    using thrown_state(2) [OF th] by (simp add: attempt released)
  have r1: "\<forall>ic. API_KEY P \<noteq> None \<and> API_KEY P \<noteq> Some [] \<and> newInputAudioContext P = Inr ic \<longrightarrow>
      ContextClose ic \<in> set (attempt_calls P s)"
    using thrown_state(3) [OF th] by (simp add: attempt released)
  have r2: "\<forall>ic oc. API_KEY P \<noteq> None \<and> API_KEY P \<noteq> Some [] \<and> newInputAudioContext P = Inr ic \<and>
      newOutputAudioContext P = Inr oc \<longrightarrow>
      ContextClose oc \<in> set (attempt_calls P s)"
    using thrown_state(4) [OF th] by (simp add: attempt released)
  have r3: "\<forall>ic oc stream. API_KEY P \<noteq> None \<and> API_KEY P \<noteq> Some [] \<and>
      newInputAudioContext P = Inr ic \<and> newOutputAudioContext P = Inr oc \<and>
      getUserMedia P = Inr stream \<longrightarrow>
      TracksStop stream \<in> set (attempt_calls P s)"
    using thrown_state(5) [OF th] by (simp add: attempt released)
  have r4: "\<forall>ic oc stream source. API_KEY P \<noteq> None \<and> API_KEY P \<noteq> Some [] \<and>
      newInputAudioContext P = Inr ic \<and> newOutputAudioContext P = Inr oc \<and>
      getUserMedia P = Inr stream \<and> createMediaStreamSource P = Inr source \<longrightarrow>
      NodeDisconnect source \<in> set (attempt_calls P s)"
    using thrown_state(6) [OF th] by (simp add: attempt released)
  have r5: "\<forall>ic oc stream source analyser processor. API_KEY P \<noteq> None \<and> API_KEY P \<noteq> Some [] \<and>
      newInputAudioContext P = Inr ic \<and> newOutputAudioContext P = Inr oc \<and>
      getUserMedia P = Inr stream \<and> createMediaStreamSource P = Inr source \<and>
      createAnalyser P = Inr analyser \<and> createScriptProcessor P = Inr processor \<longrightarrow>
      NodeDisconnect processor \<in> set (attempt_calls P s)"
    using thrown_state(7) [OF th] by (simp add: attempt released)
  show ?thesis
    by (intro conjI) (rule state point grown r0 r1 r2 r3 r4 r5)+
qed

lemma refused_start:
  "\<not> all_granted refused"
  "error (fst (startSession refused initial)) = Some ''Permission denied''"
  "animationFrameRef initial \<noteq> Some 0"
  by (simp_all add: all_granted_def refused_def granted_def returned_def startSession_def
      startSession_contexts_def message_or_default_def initial_def)

lemma failed_attempts:
  "attempt_calls refused initial =
     [ConsoleError ''Initialization Error:'' (Thrown (Some ''Permission denied'')),
      ContextClose 1, ContextClose 2]"
  "\<not> all_granted unreachable"
  "error (fst (startSession unreachable initial)) = Some ''Failed to initialize.''"
  "attempt_calls unreachable initial =
     [NodeConnect 4 5, NodeConnect 5 6, NodeConnect 6 1,
      ConsoleError ''Initialization Error:'' (Thrown None),
      TracksStop 3, NodeDisconnect 6, NodeDisconnect 4, ContextClose 1, ContextClose 2]"
  by (simp_all add: attempt_calls_def all_granted_def returned_def startSession_def
      refused_def unreachable_def granted_def startSession_contexts_def startSession_graph_def
      initial_def initialization_error_effects cleanup_calls_def message_or_default_def Let_def)

theorem failed_start_ends_idle_with_message_witness:
  "\<not> all_granted refused \<and>
   snd (startSession refused initial) = Failed \<and>
   isConnected (fst (startSession refused initial)) = False \<and>
   aiSessionRef (fst (startSession refused initial)) = None \<and>
   inputMediaStreamRef (fst (startSession refused initial)) = None \<and>
   inputAudioContextRef (fst (startSession refused initial)) = None \<and>
   outputAudioContextRef (fst (startSession refused initial)) = None \<and>
   error (fst (startSession refused initial)) = Some ''Permission denied'' \<and>
   Idle (fst (startSession refused initial)) \<and>
   effects (fst (startSession refused initial)) =
     [ConsoleError ''Initialization Error:'' (Thrown (Some ''Permission denied'')),
      ContextClose 1, ContextClose 2] \<and>
   \<not> all_granted unreachable \<and>
   snd (startSession unreachable initial) = Failed \<and>
   Idle (fst (startSession unreachable initial)) \<and>
   error (fst (startSession unreachable initial)) = Some ''Failed to initialize.'' \<and>
   effects (fst (startSession unreachable initial)) =
     [NodeConnect 4 5, NodeConnect 5 6, NodeConnect 6 1,
      ConsoleError ''Initialization Error:'' (Thrown None),
      TracksStop 3, NodeDisconnect 6, NodeDisconnect 4, ContextClose 1, ContextClose 2]"
proof -
  note first = failed_start_ends_idle_with_message [OF refused_start(1), of initial]
  note second = failed_start_ends_idle_with_message [OF failed_attempts(2), of initial]
  have fresh: "effects initial = []"
    by (simp add: initial_def)
  from first have f: "snd (startSession refused initial) = Failed"
    "isConnected (fst (startSession refused initial)) = False"
    "aiSessionRef (fst (startSession refused initial)) = None"
    "inputMediaStreamRef (fst (startSession refused initial)) = None"
    "inputAudioContextRef (fst (startSession refused initial)) = None"
    "outputAudioContextRef (fst (startSession refused initial)) = None"
    "animationFrameRef initial \<noteq> Some 0 \<longrightarrow> Idle (fst (startSession refused initial))"
    "effects (fst (startSession refused initial)) = effects initial @ attempt_calls refused initial"
    by blast+
  from second have g: "snd (startSession unreachable initial) = Failed"
    "animationFrameRef initial \<noteq> Some 0 \<longrightarrow> Idle (fst (startSession unreachable initial))"
    "effects (fst (startSession unreachable initial)) =
       effects initial @ attempt_calls unreachable initial"
    by blast+
  have idle: "Idle (fst (startSession refused initial))"
    "Idle (fst (startSession unreachable initial))"
    using f(7) g(2) refused_start(3) by blast+
  have traces: "effects (fst (startSession refused initial)) =
     [ConsoleError ''Initialization Error:'' (Thrown (Some ''Permission denied'')),
      ContextClose 1, ContextClose 2]"
    "effects (fst (startSession unreachable initial)) =
     [NodeConnect 4 5, NodeConnect 5 6, NodeConnect 6 1,
      ConsoleError ''Initialization Error:'' (Thrown None),
      TracksStop 3, NodeDisconnect 6, NodeDisconnect 4, ContextClose 1, ContextClose 2]"
    using f(8) g(3) by (simp_all only: fresh append_Nil failed_attempts)
  show ?thesis
    by (intro conjI)
       (rule refused_start(1) refused_start(2) failed_attempts(2) failed_attempts(3)
          f(1-6) g(1) idle traces)+
qed

subsection \<open>Start requests\<close>

text \<open>
  Claim C3 says that a start request in any state that is not Idle is rejected or is a
  no-op. It fails between the first click and the answer of \<^verbatim>\<open>getUserMedia\<close>: the
  connected flag is still false, so the start button is still rendered, and a second
  click runs \<^verbatim>\<open>startSession\<close> again, which overwrites both audio context refs (the
  contexts 1 and 2 of the first attempt are replaced by 11 and 12, with no call that
  closes them).
\<close>

theorem start_request_while_connecting_counterexample:
  "\<not> Idle connecting \<and>
   inputAudioContextRef connecting = Some 1 \<and>
   outputAudioContextRef connecting = Some 2 \<and>
   inputAudioContextRef (request granted_again Start connecting) = Some 11 \<and>
   outputAudioContextRef (request granted_again Start connecting) = Some 12 \<and>
   effects (request granted_again Start connecting) = []"
  by (simp add: connecting_def granted_again_def granted_def initial_def startSession_begin_def
      startSession_contexts_def request_def rendered_def button_for_def onClick_def Idle_def)

text \<open>
  Claim C3, amended. In every state in which the connected flag is true, only the stop
  button is rendered, and a start request leaves the whole state (connection, device
  handles, Timeline Cursor) as it is.
\<close>

theorem start_request_while_connected_is_ignored:
  assumes "isConnected s"
  shows "rendered s = TERMINATE \<and> request P Start s = s"
  using assms by (simp add: request_def rendered_def button_for_def)

theorem start_request_while_connected_is_ignored_witness:
  "isConnected streaming \<and> rendered streaming = TERMINATE \<and>
   request granted_again Start streaming = streaming"
proof -
  have connected: "isConnected streaming"
    by (simp add: streaming_value)
  show ?thesis
    using start_request_while_connected_is_ignored [OF connected, of granted_again] connected
    by simp
qed

lemma startSession_forgets_error:
  "startSession P (s\<lparr>error := e\<rparr>) = startSession P s"
  "startSession_begin P (s\<lparr>error := e\<rparr>) = startSession_begin P s"
  by (simp_all add: startSession_def startSession_begin_def)

lemma startSession_contexts_error:
  "startSession_contexts P s = Inr s1 \<Longrightarrow> error s1 = error s"
  by (auto simp: startSession_contexts_def Let_def split: if_splits sum.splits)

lemma startSession_graph_error:
  "startSession_graph P stream s = Inr (processor, s2) \<Longrightarrow> error s2 = error s"
  by (auto simp: startSession_graph_def Let_def split: option.splits sum.splits)

lemma updateVolume_error [simp]: "error (updateVolume dataArray frame s) = error s"
  by (simp add: updateVolume_def split: option.splits)

lemma started_clears_error:
  assumes "snd (startSession P s) = Started"
  shows "error (fst (startSession P s)) = None"
proof -
  have "\<exists>s1 stream processor s2 session.
      startSession_contexts P (s\<lparr>error := None\<rparr>) = Inr s1 \<and>
      startSession_graph P stream s1 = Inr (processor, s2) \<and>
      fst (startSession P s) =
        onopen_then session (startSession_streaming P processor session (onopen s2))"
    using assms
    by (auto simp: startSession_def Let_def split: sum.splits prod.splits)
  then obtain s1 stream processor s2 session where
    "startSession_contexts P (s\<lparr>error := None\<rparr>) = Inr s1"
    "startSession_graph P stream s1 = Inr (processor, s2)"
    "fst (startSession P s) =
       onopen_then session (startSession_streaming P processor session (onopen s2))"
    by blast
  then show ?thesis
    using startSession_contexts_error [of P "s\<lparr>error := None\<rparr>" s1]
      startSession_graph_error [of P stream s1 processor s2]
    by (simp add: onopen_then_def startSession_streaming_def onopen_def)
qed

lemma react_error: "error (react U ev s) = error s"
proof (cases ev)
  case (Message now m)
  then show ?thesis
    by (auto simp: onmessage_def onmessage_decoded_def Let_def split: option.splits sum.splits)
next
  case (Ended now)
  then show ?thesis by (simp add: onended_def)
next
  case (Frame dataArray frame)
  then show ?thesis by simp
qed

subsection \<open>The error signal\<close>

text \<open>
  Claim C10. \<^verbatim>\<open>stopSession\<close> resets the connected flag, the AI-speaking flag and the
  volume, and leaves the error signal as it is. So the message that \<^verbatim>\<open>onerror\<close> or the
  \<^verbatim>\<open>catch\<close> block of \<^verbatim>\<open>startSession\<close> sets survives the cleanup that follows it; the
  other callbacks (\<^verbatim>\<open>onclose\<close>, \<^verbatim>\<open>onopen\<close>, messages, completions, meter ticks) do not
  touch it. A start request begins by setting the error to \<^verbatim>\<open>null\<close>: its outcome does
  not depend on the old message, and after a start that succeeds the error is \<^verbatim>\<open>null\<close>.
\<close>

theorem error_outlives_cleanup:
  "isConnected (stopSession c s) = False \<and>
   isAiSpeaking (stopSession c s) = False \<and>
   volume (stopSession c s) = Num 0 \<and>
   error (stopSession c s) = error s \<and>
   error (onerror c err s) = Some ''Connection Error. Please try again.'' \<and>
   error (initialization_error c err s) = Some (message_or_default err) \<and>
   error (onclose c s) = error s \<and>
   error (onopen s) = error s \<and>
   error (react U ev s) = error s \<and>
   startSession P s = startSession P (s\<lparr>error := None\<rparr>) \<and>
   startSession_begin P s = startSession_begin P (s\<lparr>error := None\<rparr>) \<and>
   (all_granted P \<longrightarrow> error (fst (startSession P s)) = None)"
proof -
  have "all_granted P \<longrightarrow> error (fst (startSession P s)) = None"
    using startSession_outcome [of P s] started_clears_error [of P s] by blast
  then show ?thesis
    by (simp add: startSession_forgets_error react_error onerror_def onclose_def onopen_def)
qed

theorem error_outlives_cleanup_witness:
  "error (fst (startSession refused initial)) = Some ''Permission denied'' \<and>
   error (stopSession None (fst (startSession refused initial))) = Some ''Permission denied'' \<and>
   all_granted granted \<and>
   error (fst (startSession granted (fst (startSession refused initial)))) = None"
proof -
  have ok: "all_granted granted"
    by (simp add: all_granted_def granted_def returned_def)
  note inst = error_outlives_cleanup [of None "fst (startSession refused initial)"
      close_fails spec_utils "Ended 0" granted]
  from inst have kept: "error (stopSession None (fst (startSession refused initial))) =
      error (fst (startSession refused initial))"
    and cleared: "all_granted granted \<longrightarrow>
      error (fst (startSession granted (fst (startSession refused initial)))) = None"
    by blast+
  show ?thesis
    using kept cleared ok refused_start(2) by simp
qed

end
